theory Spec2Isabelle
  imports Main
begin

section \<open>Python values and exceptions\<close>

text \<open>
  The cog reads JSON decoded by the HTTP client and values stored in the bot's
  configuration. The values that reach the name formatter are JSON scalars. A Python
  \<open>str\<close> is modelled as a \<open>string\<close> in which one \<open>char\<close> stands for one code
  point, so \<open>length\<close> and \<open>take\<close> count what Python's \<open>len\<close> and slicing count.
  Floating point numbers are left out.
\<close>

datatype pyval = PNone | PBool bool | PInt int | PStr string

datatype exn =
    KeyError string
  | IndexError
  | ValueError
  | AttributeError
  | TypeError
  | TimeoutError
  | ClientError
  | JSONDecodeError
  | HTTPException

type_synonym pydict = "(string \<times> pyval) list"

text \<open>\<open>d.get(key, default)\<close> on a dictionary.\<close>

definition dict_get :: "pydict \<Rightarrow> string \<Rightarrow> pyval \<Rightarrow> pyval" where
  "dict_get d key dflt = (case map_of d key of None \<Rightarrow> dflt | Some v \<Rightarrow> v)"

subsection \<open>\<open>str()\<close> of a scalar\<close>

definition digit_char :: "nat \<Rightarrow> char" where
  "digit_char d = char_of (48 + d)"

fun digits :: "nat \<Rightarrow> string" where
  "digits n = (if n < 10 then [digit_char n] else digits (n div 10) @ [digit_char (n mod 10)])"

declare digits.simps [simp del]

definition str_int :: "int \<Rightarrow> string" where
  "str_int i = (if i < 0 then CHR ''-'' # digits (nat (- i)) else digits (nat i))"

fun py_str :: "pyval \<Rightarrow> string" where
  "py_str PNone = ''None''"
| "py_str (PBool b) = (if b then ''True'' else ''False'')"
| "py_str (PInt i) = str_int i"
| "py_str (PStr s) = s"

section \<open>\<open>str.format\<close> with keyword arguments only\<close>

text \<open>
  \<open>channel_format.format(players=..., max=..., name=..., status=...)\<close> is Python's
  built-in formatter. The model follows its scanner: literal text up to the next brace,
  doubled braces as an escape, then a replacement field made of a field name, an optional
  conversion after \<open>!\<close> and an optional format specification after \<open>:\<close>. Errors are
  raised from left to right, and the first one ends the call.
\<close>

definition is_brace :: "char \<Rightarrow> bool" where
  "is_brace c = (c = CHR ''{'' \<or> c = CHR ''}'')"

text \<open>
  The field name ends at \<open>}\<close>, \<open>:\<close> or \<open>!\<close>; inside square brackets every character
  up to \<open>]\<close> is skipped; an opening brace is an error. The result is the name, the
  terminating character (none when the text ran out) and the text after it.
\<close>

function scan_field_name :: "string \<Rightarrow> exn + (string \<times> char option \<times> string)" where
  "scan_field_name [] = Inr ([], None, [])"
| "scan_field_name (c # cs) =
     (if c = CHR ''{'' then Inl ValueError
      else if c = CHR ''['' then
        (case scan_field_name (dropWhile (\<lambda>x. x \<noteq> CHR '']'') cs) of
           Inl e \<Rightarrow> Inl e
         | Inr (n, t, r) \<Rightarrow> Inr (c # takeWhile (\<lambda>x. x \<noteq> CHR '']'') cs @ n, t, r))
      else if c = CHR ''}'' \<or> c = CHR '':'' \<or> c = CHR ''!'' then Inr ([], Some c, cs)
      else
        (case scan_field_name cs of
           Inl e \<Rightarrow> Inl e
         | Inr (n, t, r) \<Rightarrow> Inr (c # n, t, r)))"
  by pat_completeness auto
termination
  by (relation "measure length") (auto simp: le_imp_less_Suc length_dropWhile_le)

declare scan_field_name.simps [simp del]

text \<open>
  The format specification runs to the closing brace that matches the field's opening
  brace; nested braces are counted. \<open>None\<close>: the text ran out first.
\<close>

fun scan_format_spec :: "nat \<Rightarrow> string \<Rightarrow> (string \<times> string) option" where
  "scan_format_spec count [] = None"
| "scan_format_spec count (c # cs) =
     (if c = CHR ''{'' then
        map_option (\<lambda>(sp, r). (c # sp, r)) (scan_format_spec (Suc count) cs)
      else if c = CHR ''}'' then
        (if count - 1 = 0 then Some ([], cs)
         else map_option (\<lambda>(sp, r). (c # sp, r)) (scan_format_spec (count - 1) cs))
      else map_option (\<lambda>(sp, r). (c # sp, r)) (scan_format_spec count cs))"

text \<open>A parsed replacement field: field name, conversion character, format specification.\<close>

record field =
  field_name :: string
  conversion :: "char option"
  format_spec :: string

definition with_spec :: "string \<Rightarrow> char option \<Rightarrow> string \<Rightarrow> exn + (field \<times> string)" where
  "with_spec n conv s =
     (case scan_format_spec 1 s of
        None \<Rightarrow> Inl ValueError
      | Some (sp, r) \<Rightarrow> Inr (\<lparr>field_name = n, conversion = conv, format_spec = sp\<rparr>, r))"

definition parse_field :: "string \<Rightarrow> exn + (field \<times> string)" where
  "parse_field s =
     (case scan_field_name s of
        Inl e \<Rightarrow> Inl e
      | Inr (n, None, r) \<Rightarrow> Inl ValueError
      | Inr (n, Some c, r) \<Rightarrow>
          (if c = CHR ''}'' then
             Inr (\<lparr>field_name = n, conversion = None, format_spec = []\<rparr>, r)
           else if c = CHR ''!'' then
             (case r of
                [] \<Rightarrow> Inl ValueError
              | conv # r1 \<Rightarrow>
                  (case r1 of
                     [] \<Rightarrow> Inl ValueError
                   | c2 # r2 \<Rightarrow>
                       (if c2 = CHR ''}'' then
                          Inr (\<lparr>field_name = n, conversion = Some conv, format_spec = []\<rparr>, r2)
                        else if c2 \<noteq> CHR '':'' then Inl ValueError
                        else with_spec n (Some conv) r2)))
           else with_spec n None r))"

text \<open>
  The first part of the field name, up to \<open>.\<close> or \<open>[\<close>, names the argument.
  \<open>get_integer\<close> reads it as a decimal index, from left to right: at the first character
  that is not a decimal digit it gives up without an error (the name is a keyword), and at
  the first digit that takes the number above the largest index
  (\<open>2^63 - 1 = 9223372036854775807\<close>) it raises \<open>ValueError\<close>, whatever follows that
  digit. The empty name is not read: it is the next automatic index.
\<close>

definition is_digit :: "char \<Rightarrow> bool" where
  "is_digit c = ((48::nat) \<le> of_char c \<and> of_char c \<le> (57::nat))"

fun get_integer :: "int \<Rightarrow> string \<Rightarrow> exn + int option" where
  "get_integer accumulator [] = Inr (Some accumulator)"
| "get_integer accumulator (c # cs) =
     (if \<not> is_digit c then Inr None
      else if accumulator > (9223372036854775807 - (of_char c - 48)) div 10 then Inl ValueError
      else get_integer (accumulator * 10 + (of_char c - 48)) cs)"

definition arg_name :: "string \<Rightarrow> string" where
  "arg_name n = takeWhile (\<lambda>c. c \<noteq> CHR ''.'' \<and> c \<noteq> CHR ''['') n"

definition arg_rest :: "string \<Rightarrow> string" where
  "arg_rest n = dropWhile (\<lambda>c. c \<noteq> CHR ''.'' \<and> c \<noteq> CHR ''['') n"

text \<open>
  An index, automatic or written, is looked up among the positional arguments: the call
  passes none, so the lookup raises \<open>IndexError\<close>. Any other name is looked up among the
  keyword arguments, as it is written.
\<close>

definition lookup_arg :: "pydict \<Rightarrow> string \<Rightarrow> exn + pyval" where
  "lookup_arg kwargs first =
     (if first = [] then Inl IndexError
      else
        (case get_integer 0 first of
           Inl e \<Rightarrow> Inl e
         | Inr (Some index) \<Rightarrow> Inl IndexError
         | Inr None \<Rightarrow>
             (case map_of kwargs first of None \<Rightarrow> Inl (KeyError first) | Some v \<Rightarrow> Inr v)))"

text \<open>
  A field that is only an argument name is rendered as \<open>format(value, "")\<close>, which is
  \<open>str(value)\<close> for the scalars. A field with attribute or index access, a conversion
  or a format specification goes through Python's format mini-language, which is not
  modelled: its outcome is the parameter \<open>mini\<close>, applied after the argument has been
  found, so every statement below holds whatever the mini-language computes.
\<close>

type_synonym mini_language = "pydict \<Rightarrow> pyval \<Rightarrow> string \<Rightarrow> char option \<Rightarrow> string \<Rightarrow> exn + string"

definition render_field :: "mini_language \<Rightarrow> pydict \<Rightarrow> field \<Rightarrow> exn + string" where
  "render_field mini kwargs f =
     (case lookup_arg kwargs (arg_name (field_name f)) of
        Inl e \<Rightarrow> Inl e
      | Inr v \<Rightarrow>
          (if arg_rest (field_name f) = [] \<and> conversion f = None \<and> format_spec f = []
           then Inr (py_str v)
           else mini kwargs v (arg_rest (field_name f)) (conversion f) (format_spec f)))"

lemma scan_field_name_length:
  "scan_field_name s = Inr (n, t, r) \<Longrightarrow> length r \<le> length s"
proof (induction s arbitrary: n t r rule: scan_field_name.induct)
  case 1
  then show ?case by (simp add: scan_field_name.simps)
next
  case (2 c cs)
  show ?case
  proof (cases "c = CHR ''{''")
    case True
    with "2.prems" show ?thesis by (simp add: scan_field_name.simps)
  next
    case nb: False
    show ?thesis
    proof (cases "c = CHR ''[''")
      case True
      with nb "2.prems" obtain n' where
        "scan_field_name (dropWhile (\<lambda>x. x \<noteq> CHR '']'') cs) = Inr (n', t, r)"
        by (auto simp: scan_field_name.simps split: sum.splits)
      with "2.IH"(1) [OF nb True] have "length r \<le> length (dropWhile (\<lambda>x. x \<noteq> CHR '']'') cs)"
        by blast
      also have "\<dots> \<le> length cs" by (rule length_dropWhile_le)
      finally show ?thesis by simp
    next
      case nk: False
      show ?thesis
      proof (cases "c = CHR ''}'' \<or> c = CHR '':'' \<or> c = CHR ''!''")
        case True
        with nb nk "2.prems" show ?thesis by (auto simp: scan_field_name.simps)
      next
        case False
        with nb nk "2.prems" obtain n' where "scan_field_name cs = Inr (n', t, r)"
          by (auto simp: scan_field_name.simps split: sum.splits)
        with "2.IH"(2) [OF nb nk False] have "length r \<le> length cs" by blast
        then show ?thesis by simp
      qed
    qed
  qed
qed

lemma scan_field_name_terminated:
  "scan_field_name s = Inr (n, Some c, r) \<Longrightarrow> length r < length s"
proof (induction s arbitrary: n r rule: scan_field_name.induct)
  case 1
  then show ?case by (simp add: scan_field_name.simps)
next
  case (2 d cs)
  show ?case
  proof (cases "d = CHR ''{''")
    case True
    with "2.prems" show ?thesis by (simp add: scan_field_name.simps)
  next
    case nb: False
    show ?thesis
    proof (cases "d = CHR ''[''")
      case True
      with nb "2.prems" obtain n' where
        "scan_field_name (dropWhile (\<lambda>x. x \<noteq> CHR '']'') cs) = Inr (n', Some c, r)"
        by (auto simp: scan_field_name.simps split: sum.splits)
      then have "length r \<le> length (dropWhile (\<lambda>x. x \<noteq> CHR '']'') cs)"
        by (rule scan_field_name_length)
      also have "\<dots> \<le> length cs" by (rule length_dropWhile_le)
      finally show ?thesis by simp
    next
      case nk: False
      show ?thesis
      proof (cases "d = CHR ''}'' \<or> d = CHR '':'' \<or> d = CHR ''!''")
        case True
        with nb nk "2.prems" show ?thesis by (auto simp: scan_field_name.simps)
      next
        case False
        with nb nk "2.prems" obtain n' where "scan_field_name cs = Inr (n', Some c, r)"
          by (auto simp: scan_field_name.simps split: sum.splits)
        then have "length r \<le> length cs" by (rule scan_field_name_length)
        then show ?thesis by simp
      qed
    qed
  qed
qed

lemma scan_format_spec_length:
  "scan_format_spec k s = Some (sp, r) \<Longrightarrow> length r < length s"
  by (induction k s arbitrary: sp r rule: scan_format_spec.induct)
     (fastforce split: if_splits)+

lemma with_spec_length:
  "with_spec n conv s = Inr (f, r) \<Longrightarrow> length r < length s"
  by (auto simp: with_spec_def split: option.splits dest: scan_format_spec_length)

lemma parse_field_length:
  assumes "parse_field s = Inr (f, r)"
  shows "length r < length s"
proof -
  from assms obtain n c r0 where scan: "scan_field_name s = Inr (n, Some c, r0)"
    by (auto simp: parse_field_def split: sum.splits option.splits)
  then have r0: "length r0 < length s" by (rule scan_field_name_terminated)
  from assms scan have "length r \<le> length r0"
    by (auto simp: parse_field_def split: if_splits list.splits
             dest!: with_spec_length)
  with r0 show ?thesis by simp
qed

text \<open>
  The scanner of \<open>str.format\<close>. The literal text runs to the first brace. A brace that
  is doubled stands for itself; a single closing brace, or an opening brace at the end of
  the template, is an error; anything else after an opening brace is a replacement field.
\<close>

function py_format :: "mini_language \<Rightarrow> string \<Rightarrow> pydict \<Rightarrow> exn + string" where
  "py_format mini s kwargs =
     (case dropWhile (\<lambda>c. \<not> is_brace c) s of
        [] \<Rightarrow> Inr s
      | c # r1 \<Rightarrow>
          (case r1 of
             [] \<Rightarrow> Inl ValueError
           | c2 # r2 \<Rightarrow>
               (if c2 = c then
                  (case py_format mini r2 kwargs of
                     Inl e \<Rightarrow> Inl e
                   | Inr out \<Rightarrow> Inr (takeWhile (\<lambda>c. \<not> is_brace c) s @ c # out))
                else if c = CHR ''}'' then Inl ValueError
                else
                  (case parse_field r1 of
                     Inl e \<Rightarrow> Inl e
                   | Inr (f, r3) \<Rightarrow>
                       (case render_field mini kwargs f of
                          Inl e \<Rightarrow> Inl e
                        | Inr txt \<Rightarrow>
                            (case py_format mini r3 kwargs of
                               Inl e \<Rightarrow> Inl e
                             | Inr out \<Rightarrow>
                                 Inr (takeWhile (\<lambda>c. \<not> is_brace c) s @ txt @ out)))))))"
  by pat_completeness auto
termination
proof (relation "measure (\<lambda>(mini, s, kwargs). length s)", goal_cases)
  case 1
  show ?case by simp
next
  case (2 mini s kwargs c r1 c2 r2)
  have "length (dropWhile (\<lambda>c. \<not> is_brace c) s) \<le> length s"
    by (rule length_dropWhile_le)
  with 2 show ?case by simp
next
  case (3 mini s kwargs c r1 c2 r2 x f r3)
  have "length (dropWhile (\<lambda>c. \<not> is_brace c) s) \<le> length s"
    by (rule length_dropWhile_le)
  moreover from 3 have "length r3 < length r1"
    by (auto dest: parse_field_length)
  ultimately show ?case using 3 by simp
qed

declare py_format.simps [simp del]

section \<open>The cog's data\<close>

text \<open>
  One entry of the guild's \<open>servers\<close> dictionary. \<open>sd_channel_id\<close> is
  \<open>server_data.get("channel_id")\<close> and \<open>sd_name\<close> is the value stored under
  \<open>"name"\<close>; \<open>None\<close> stands for a missing key. The audit fields \<open>added_by\<close> and
  \<open>added_at\<close> are never read by the code below.
\<close>

record server_data =
  sd_channel_id :: "int option"
  sd_name :: "pyval option"

text \<open>
  The decoded payload. \<open>info\<close> is the dictionary under \<open>"data"\<close>; the value of one of
  its keys is a scalar or a dictionary of scalars (\<open>"attributes"\<close>). A dictionary is an
  association list with distinct keys, in iteration order.
\<close>

datatype jval = Scalar pyval | Object pydict

type_synonym info = "(string \<times> jval) list"

text \<open>
  What \<open>resp.json()\<close> and \<open>data.get("data", {})\<close> can meet: a body that does not decode,
  a decoded value that is not a dictionary, a dictionary without \<open>"data"\<close>, or with
  \<open>"data"\<close> null or a dictionary.
\<close>

datatype body = Undecodable | NonObject | NoDataKey | DataNull | DataDict info

datatype http_outcome = Raises exn | Response nat body

record request =
  url :: string
  headers :: "(string \<times> string) list"
  timeout :: nat

datatype event =
    Fetch string
  | Edit int string
  | Sleep nat
  | Send string
  | LogError exn

text \<open>
  The world outside the cog: the stored API token, the answer of the HTTP client to a
  request, whether Discord accepts a rename (\<open>False\<close>: \<open>discord.HTTPException\<close>), the id
  of a created channel (\<open>None\<close>: \<open>discord.HTTPException\<close>), and the format mini-language.
\<close>

record env =
  api_token :: "string option"
  http_get :: "request \<Rightarrow> http_outcome"
  channel_edit :: "int \<Rightarrow> string \<Rightarrow> bool"
  create_voice_channel :: "string \<Rightarrow> int option"
  format_mini :: mini_language

text \<open>The channels of a guild (id to current name) and the calls made so far.\<close>

record world =
  channels :: "int \<rightharpoonup> string"
  trace :: "event list"

record guild =
  guild_channels :: "int \<rightharpoonup> string"
  servers :: "(string \<times> server_data) list"
  category_id :: "int option"
  channel_format :: string

section \<open>\<open>_fetch_server_info\<close>\<close>

definition BATTLEMETRICS_API_URL :: string where
  "BATTLEMETRICS_API_URL = ''https://api.battlemetrics.com''"

definition make_request :: "string option \<Rightarrow> string \<Rightarrow> request" where
  "make_request token server_id =
     \<lparr>url = BATTLEMETRICS_API_URL @ ''/servers/'' @ server_id,
      headers = (case token of
                   None \<Rightarrow> []
                 | Some t \<Rightarrow> if t = [] then [] else [(''Authorization'', ''Bearer '' @ t)]),
      timeout = 30\<rparr>"

text \<open>The body of the \<open>try\<close> block: what it returns, or the exception it raises.\<close>

definition fetch_attempt :: "http_outcome \<Rightarrow> exn + info option" where
  "fetch_attempt out =
     (case out of
        Raises e \<Rightarrow> Inl e
      | Response st b \<Rightarrow>
          (if st = 200 then
             (case b of
                Undecodable \<Rightarrow> Inl JSONDecodeError
              | NonObject \<Rightarrow> Inl AttributeError
              | NoDataKey \<Rightarrow> Inr (Some [])
              | DataNull \<Rightarrow> Inr None
              | DataDict i \<Rightarrow> Inr (Some i))
           else if st = 429 then Inr None
           else Inr None))"

text \<open>The two handlers, \<open>asyncio.TimeoutError\<close> and \<open>Exception\<close>, both return \<open>None\<close>.\<close>

definition fetch_server_info :: "env \<Rightarrow> string \<Rightarrow> info option" where
  "fetch_server_info e server_id =
     (case fetch_attempt (http_get e (make_request (api_token e) server_id)) of
        Inl TimeoutError \<Rightarrow> None
      | Inl _ \<Rightarrow> None
      | Inr r \<Rightarrow> r)"

section \<open>The channel name\<close>

text \<open>
  \<open>attributes = info.get("attributes", {})\<close>, read with \<open>attributes.get\<close> on the next
  line: a value that is not a dictionary has no \<open>get\<close>.
\<close>

definition get_attributes :: "info \<Rightarrow> exn + pydict" where
  "get_attributes i =
     (case map_of i ''attributes'' of
        None \<Rightarrow> Inr []
      | Some (Object d) \<Rightarrow> Inr d
      | Some (Scalar v) \<Rightarrow> Inl AttributeError)"

text \<open>\<open>server_data.get("name", dflt)\<close>.\<close>

definition stored_name :: "server_data \<Rightarrow> pyval \<Rightarrow> pyval" where
  "stored_name sd dflt = (case sd_name sd of None \<Rightarrow> dflt | Some v \<Rightarrow> v)"

definition format_kwargs :: "pyval \<Rightarrow> pyval \<Rightarrow> pyval \<Rightarrow> pyval \<Rightarrow> pydict" where
  "format_kwargs players max_players nm status =
     [(''players'', players), (''max'', max_players), (''name'', nm), (''status'', status)]"

text \<open>Lines 134 to 149 of \<open>_update_all_channels\<close>: the name before it is cut.\<close>

definition format_channel_name :: "mini_language \<Rightarrow> string \<Rightarrow> server_data \<Rightarrow> pydict \<Rightarrow> exn + string" where
  "format_channel_name mini fmt sd attributes =
     (let players = dict_get attributes ''players'' (PInt 0);
          max_players = dict_get attributes ''maxPlayers'' (PInt 0);
          server_name = dict_get attributes ''name'' (PStr ''Unknown'');
          status = dict_get attributes ''status'' (PStr ''offline'')
      in if status = PStr ''offline''
         then Inr (''[OFFLINE] '' @ py_str (stored_name sd server_name))
         else py_format mini fmt
                (format_kwargs players max_players (stored_name sd server_name) status))"

text \<open>Line 152: \<open>new_name = new_name[:100]\<close>.\<close>

definition new_channel_name :: "mini_language \<Rightarrow> string \<Rightarrow> server_data \<Rightarrow> pydict \<Rightarrow> exn + string" where
  "new_channel_name mini fmt sd attributes =
     (case format_channel_name mini fmt sd attributes of
        Inl e \<Rightarrow> Inl e
      | Inr new_name \<Rightarrow> Inr (take 100 new_name))"

text \<open>Lines 400 to 413 of \<open>refresh_servers\<close>: the slice is on the template branch only.\<close>

definition refresh_new_name :: "mini_language \<Rightarrow> string \<Rightarrow> server_data \<Rightarrow> pydict \<Rightarrow> exn + string" where
  "refresh_new_name mini fmt sd attributes =
     (let players = dict_get attributes ''players'' (PInt 0);
          max_players = dict_get attributes ''maxPlayers'' (PInt 0);
          status = dict_get attributes ''status'' (PStr ''offline'')
      in if status = PStr ''offline''
         then Inr (''[OFFLINE] '' @ py_str (stored_name sd (PStr ''Unknown'')))
         else (case py_format mini fmt
                      (format_kwargs players max_players (stored_name sd (PStr ''Unknown'')) status) of
                 Inl e \<Rightarrow> Inl e
               | Inr new_name \<Rightarrow> Inr (take 100 new_name)))"

text \<open>
  Lines 261 to 264 and 287 to 293 of \<open>add_server\<close>; \<open>custom_name or ...\<close> takes the
  fetched name when no custom name, or an empty one, was given.
\<close>

definition add_channel_name :: "mini_language \<Rightarrow> string \<Rightarrow> string option \<Rightarrow> pydict \<Rightarrow> exn + string" where
  "add_channel_name mini fmt custom_name attributes =
     (let server_name = (case custom_name of
                           None \<Rightarrow> dict_get attributes ''name'' (PStr ''Unknown Server'')
                         | Some c \<Rightarrow> if c = [] then dict_get attributes ''name'' (PStr ''Unknown Server'')
                                     else PStr c);
          players = dict_get attributes ''players'' (PInt 0);
          max_players = dict_get attributes ''maxPlayers'' (PInt 0)
      in case py_format mini fmt (format_kwargs players max_players server_name (PStr ''online'')) of
           Inl e \<Rightarrow> Inl e
         | Inr channel_name \<Rightarrow> Inr (take 100 channel_name))"

section \<open>\<open>_update_all_channels\<close>\<close>

text \<open>
  The body of the inner loop for one entry (lines 121 to 163). \<open>if not info\<close> holds
  for \<open>None\<close> and for an empty dictionary. An exception leaves the loop with the world
  as it is at that point. A rename that Discord accepts gives the channel its new name.
\<close>

definition apply_name :: "env \<Rightarrow> int \<Rightarrow> string \<Rightarrow> string \<Rightarrow> world \<Rightarrow> world" where
  "apply_name e cid cur new_name w =
     (if cur \<noteq> new_name then
        (if channel_edit e cid new_name
         then w\<lparr>channels := (channels w)(cid \<mapsto> new_name), trace := trace w @ [Edit cid new_name]\<rparr>
         else w\<lparr>trace := trace w @ [Edit cid new_name]\<rparr>)
      else w)"

definition update_entry :: "env \<Rightarrow> string \<Rightarrow> string \<times> server_data \<Rightarrow> world \<Rightarrow> (exn \<times> world) + world" where
  "update_entry e fmt entry w =
     (case sd_channel_id (snd entry) of
        None \<Rightarrow> Inr w
      | Some cid \<Rightarrow>
          (if cid = 0 then Inr w
           else
             (case channels w cid of
                None \<Rightarrow> Inr w
              | Some cur \<Rightarrow>
                  (let w1 = w\<lparr>trace := trace w @ [Fetch (fst entry)]\<rparr>
                   in case fetch_server_info e (fst entry) of
                        None \<Rightarrow> Inr w1
                      | Some i \<Rightarrow>
                          (if i = [] then Inr w1
                           else
                             (case get_attributes i of
                                Inl x \<Rightarrow> Inl (x, w1)
                              | Inr attributes \<Rightarrow>
                                  (case new_channel_name (format_mini e) fmt (snd entry) attributes of
                                     Inl x \<Rightarrow> Inl (x, w1)
                                   | Inr new_name \<Rightarrow>
                                       (let w2 = apply_name e cid cur new_name w1
                                        in Inr (w2\<lparr>trace := trace w2 @ [Sleep 2]\<rparr>)))))))))"





section \<open>\<open>refresh_servers\<close>\<close>

record refresh_state =
  r_world :: world
  updated :: nat
  failed :: nat

text \<open>The body of the loop of the command for one entry (lines 387 to 421).\<close>

definition refresh_entry :: "env \<Rightarrow> string \<Rightarrow> string \<times> server_data \<Rightarrow> refresh_state \<Rightarrow> (exn \<times> refresh_state) + refresh_state" where
  "refresh_entry e fmt entry st =
     (case sd_channel_id (snd entry) of
        None \<Rightarrow> Inr st
      | Some cid \<Rightarrow>
          (if cid = 0 then Inr st
           else
             (case channels (r_world st) cid of
                None \<Rightarrow> Inr st
              | Some cur \<Rightarrow>
                  (let w = r_world st;
                       w1 = w\<lparr>trace := trace w @ [Fetch (fst entry)]\<rparr>;
                       st1 = st\<lparr>r_world := w1\<rparr>
                   in case fetch_server_info e (fst entry) of
                        None \<Rightarrow> Inr (st1\<lparr>failed := failed st + 1\<rparr>)
                      | Some i \<Rightarrow>
                          (if i = [] then Inr (st1\<lparr>failed := failed st + 1\<rparr>)
                           else
                             (case get_attributes i of
                                Inl x \<Rightarrow> Inl (x, st1)
                              | Inr attributes \<Rightarrow>
                                  (case refresh_new_name (format_mini e) fmt (snd entry) attributes of
                                     Inl x \<Rightarrow> Inl (x, st1)
                                   | Inr new_name \<Rightarrow>
                                       (if channel_edit e cid new_name
                                        then Inr \<lparr>r_world = \<lparr>channels = (channels w1)(cid \<mapsto> new_name),
                                                               trace = trace w1 @ [Edit cid new_name, Sleep 2]\<rparr>,
                                                  updated = updated st + 1, failed = failed st\<rparr>
                                        else Inr \<lparr>r_world = \<lparr>channels = channels w1,
                                                               trace = trace w1 @ [Edit cid new_name, Sleep 2]\<rparr>,
                                                  updated = updated st, failed = failed st + 1\<rparr>))))))))"

fun refresh_entries :: "env \<Rightarrow> string \<Rightarrow> (string \<times> server_data) list \<Rightarrow> refresh_state \<Rightarrow> (exn \<times> refresh_state) + refresh_state" where
  "refresh_entries e fmt [] st = Inr st"
| "refresh_entries e fmt (entry # rest) st =
     (case refresh_entry e fmt entry st of
        Inl x \<Rightarrow> Inl x
      | Inr st' \<Rightarrow> refresh_entries e fmt rest st')"

definition refresh_servers :: "env \<Rightarrow> guild \<Rightarrow> event list \<Rightarrow> (exn \<times> guild \<times> event list) + (guild \<times> event list)" where
  "refresh_servers e g tr =
     (if servers g = [] then Inr (g, tr @ [Send ''No servers are being tracked.''])
      else
        (case refresh_entries e (channel_format g) (servers g)
                \<lparr>r_world = \<lparr>channels = guild_channels g,
                             trace = tr @ [Send ''Refreshing all tracked servers...'']\<rparr>,
                 updated = 0, failed = 0\<rparr> of
           Inl (x, st) \<Rightarrow> Inl (x, g\<lparr>guild_channels := channels (r_world st)\<rparr>, trace (r_world st))
         | Inr st \<Rightarrow>
             Inr (g\<lparr>guild_channels := channels (r_world st)\<rparr>,
                  trace (r_world st) @
                    [Send (''Refresh complete. Updated: '' @ str_int (int (updated st)) @
                           '', Failed: '' @ str_int (int (failed st)))])))"

section \<open>\<open>add_server\<close>\<close>

text \<open>
  The command up to the creation of the channel (lines 242 to 302): the replies that end
  it early, or the name the channel is created with. Saving the entry and the last reply
  change no name.
\<close>

datatype add_result = Replied string | Created int string

definition add_server :: "env \<Rightarrow> guild \<Rightarrow> string \<Rightarrow> string option \<Rightarrow> exn + add_result" where
  "add_server e g server_id custom_name =
     (case category_id g of
        None \<Rightarrow> Inr (Replied ''Please set a category first with `[p]battlemetrics setcategory <category>`'')
      | Some cat \<Rightarrow>
          (if cat = 0 then
             Inr (Replied ''Please set a category first with `[p]battlemetrics setcategory <category>`'')
           else
             (case guild_channels g cat of
                None \<Rightarrow> Inr (Replied ''The configured category no longer exists. Please set a new one.'')
              | Some category \<Rightarrow>
                  (case fetch_server_info e server_id of
                     None \<Rightarrow> Inr (Replied ''Could not find that server on BattleMetrics. Please check the server ID and try again.'')
                   | Some i \<Rightarrow>
                       (if i = [] then
                          Inr (Replied ''Could not find that server on BattleMetrics. Please check the server ID and try again.'')
                        else
                          (case get_attributes i of
                             Inl x \<Rightarrow> Inl x
                           | Inr attributes \<Rightarrow>
                               (case add_channel_name (format_mini e) (channel_format g) custom_name attributes of
                                  Inl x \<Rightarrow> Inl x
                                | Inr channel_name \<Rightarrow>
                                    (case create_voice_channel e channel_name of
                                       None \<Rightarrow> Inr (Replied ''Failed to create voice channel'')
                                     | Some cid \<Rightarrow> Inr (Created cid channel_name)))))))))"

section \<open>Auxiliary definitions\<close>

text \<open>A mini-language that refuses everything, for the evaluations at concrete inputs.\<close>

definition no_mini :: mini_language where
  "no_mini = (\<lambda>kwargs v rest conv spec. Inl TypeError)"




text \<open>
  Concrete worlds for the evaluations: a guild with two channels; a source that answers
  every request with an online server; a source that is rate limited for server 1 and
  answers with an offline server otherwise, with a Discord that rejects every rename.
\<close>

definition two_guild_channels :: "int \<rightharpoonup> string" where
  "two_guild_channels = [5 \<mapsto> ''one'', 6 \<mapsto> ''two'']"


definition flaky_env :: env where
  "flaky_env =
     \<lparr>api_token = None,
      http_get = (\<lambda>r. if url r = ''https://api.battlemetrics.com/servers/1''
                       then Response 429 Undecodable
                       else Response 200 (DataDict [(''attributes'',
                              Object [(''name'', PStr ''A''), (''status'', PStr ''offline'')])])),
      channel_edit = (\<lambda>c n. False),
      create_voice_channel = (\<lambda>n. None),
      format_mini = no_mini\<rparr>"

text \<open>A source that answers every request with an offline server named A; renames are accepted.\<close>

definition offline_env :: env where
  "offline_env =
     \<lparr>api_token = None,
      http_get = (\<lambda>r. Response 200 (DataDict [(''attributes'',
                    Object [(''name'', PStr ''A''), (''status'', PStr ''offline'')])])),
      channel_edit = (\<lambda>c n. True),
      create_voice_channel = (\<lambda>n. None),
      format_mini = no_mini\<rparr>"


text \<open>
  A source that answers with an offline server named Alpha, a Discord that creates the
  channel 7, and a guild whose category exists, for the registration command.
\<close>

definition registering_env :: env where
  "registering_env =
     \<lparr>api_token = None,
      http_get = (\<lambda>r. Response 200 (DataDict [(''attributes'',
                    Object [(''players'', PInt 0), (''maxPlayers'', PInt 64),
                            (''name'', PStr ''Alpha''), (''status'', PStr ''offline'')])])),
      channel_edit = (\<lambda>c n. True),
      create_voice_channel = (\<lambda>n. Some 7),
      format_mini = no_mini\<rparr>"

definition registering_guild :: guild where
  "registering_guild =
     \<lparr>guild_channels = [9 \<mapsto> ''BattleMetrics''], servers = [], category_id = Some 9,
      channel_format = ''{status}: [{players}/{max}] {name}''\<rparr>"


section \<open>Properties of the formatter\<close>

text \<open>
  Text appended to a template does not change how a field that is complete is parsed.
\<close>

lemma scan_field_name_append:
  "scan_field_name s = Inr (n, Some c, r) \<Longrightarrow> scan_field_name (s @ t) = Inr (n, Some c, r @ t)"
proof (induction s arbitrary: n r rule: scan_field_name.induct)
  case 1
  then show ?case by (simp add: scan_field_name.simps)
next
  case (2 d cs)
  show ?case
  proof (cases "d = CHR ''{''")
    case True
    with "2.prems" show ?thesis by (simp add: scan_field_name.simps)
  next
    case nb: False
    show ?thesis
    proof (cases "d = CHR ''[''")
      case True
      with nb "2.prems" obtain n' where
        sc: "scan_field_name (dropWhile (\<lambda>x. x \<noteq> CHR '']'') cs) = Inr (n', Some c, r)"
        and n: "n = d # takeWhile (\<lambda>x. x \<noteq> CHR '']'') cs @ n'"
        by (auto simp: scan_field_name.simps split: sum.splits)
      have "dropWhile (\<lambda>x. x \<noteq> CHR '']'') cs \<noteq> []"
      proof
        assume "dropWhile (\<lambda>x. x \<noteq> CHR '']'') cs = []"
        with sc show False by (simp add: scan_field_name.simps)
      qed
      then obtain x where x: "x \<in> set cs" "\<not> x \<noteq> CHR '']''"
        by (auto simp: dropWhile_eq_Nil_conv)
      have dw: "dropWhile (\<lambda>x. x \<noteq> CHR '']'') (cs @ t) = dropWhile (\<lambda>x. x \<noteq> CHR '']'') cs @ t"
        using x by (rule dropWhile_append1)
      have tw: "takeWhile (\<lambda>x. x \<noteq> CHR '']'') (cs @ t) = takeWhile (\<lambda>x. x \<noteq> CHR '']'') cs"
        using x by (rule takeWhile_append1)
      from "2.IH"(1) [OF nb True sc]
      have "scan_field_name (dropWhile (\<lambda>x. x \<noteq> CHR '']'') cs @ t) = Inr (n', Some c, r @ t)" .
      with nb True n show ?thesis by (simp add: scan_field_name.simps dw tw)
    next
      case nk: False
      show ?thesis
      proof (cases "d = CHR ''}'' \<or> d = CHR '':'' \<or> d = CHR ''!''")
        case True
        with nb nk "2.prems" show ?thesis by (auto simp: scan_field_name.simps)
      next
        case False
        with nb nk "2.prems" obtain n' where sc: "scan_field_name cs = Inr (n', Some c, r)"
          and n: "n = d # n'"
          by (auto simp: scan_field_name.simps split: sum.splits)
        from "2.IH"(2) [OF nb nk False sc] have "scan_field_name (cs @ t) = Inr (n', Some c, r @ t)" .
        with nb nk False n show ?thesis by (simp add: scan_field_name.simps)
      qed
    qed
  qed
qed

lemma scan_format_spec_append:
  "scan_format_spec k s = Some (sp, r) \<Longrightarrow> scan_format_spec k (s @ t) = Some (sp, r @ t)"
  by (induction k s arbitrary: sp r rule: scan_format_spec.induct)
     (fastforce split: if_splits)+

lemma with_spec_append:
  assumes "with_spec n conv s = Inr (f, r)"
  shows "with_spec n conv (s @ t) = Inr (f, r @ t)"
proof -
  from assms obtain sp where sp: "scan_format_spec 1 s = Some (sp, r)"
    and f: "f = \<lparr>field_name = n, conversion = conv, format_spec = sp\<rparr>"
    by (auto simp: with_spec_def split: option.splits)
  from sp have "scan_format_spec 1 (s @ t) = Some (sp, r @ t)"
    by (rule scan_format_spec_append)
  with f show ?thesis by (simp add: with_spec_def)
qed

lemma parse_field_append:
  assumes "parse_field s = Inr (f, r)"
  shows "parse_field (s @ t) = Inr (f, r @ t)"
proof -
  from assms obtain n c r0 where scan: "scan_field_name s = Inr (n, Some c, r0)"
    by (auto simp: parse_field_def split: sum.splits option.splits)
  then have scan': "scan_field_name (s @ t) = Inr (n, Some c, r0 @ t)"
    by (rule scan_field_name_append)
  from assms scan show ?thesis
    unfolding parse_field_def scan scan'
    by (auto split: if_splits list.splits dest: with_spec_append)
qed

text \<open>
  The scanner works from left to right: when a template formats without error and the
  text that follows it raises on its own, the two together raise the same exception.
\<close>

lemma py_format_literal_error:
  assumes pre: "\<forall>c\<in>set pre. \<not> is_brace c" and err: "py_format mini rest kw = Inl x"
  shows "py_format mini (pre @ rest) kw = Inl x"
proof -
  have dw: "dropWhile (\<lambda>c. \<not> is_brace c) (pre @ rest) = dropWhile (\<lambda>c. \<not> is_brace c) rest"
    using pre by (simp add: dropWhile_append2)
  from err have "(case dropWhile (\<lambda>c. \<not> is_brace c) rest of
        [] \<Rightarrow> Inr rest
      | c # r1 \<Rightarrow>
          (case r1 of
             [] \<Rightarrow> Inl ValueError
           | c2 # r2 \<Rightarrow>
               (if c2 = c then
                  (case py_format mini r2 kw of
                     Inl e \<Rightarrow> Inl e
                   | Inr out \<Rightarrow> Inr (takeWhile (\<lambda>c. \<not> is_brace c) rest @ c # out))
                else if c = CHR ''}'' then Inl ValueError
                else
                  (case parse_field r1 of
                     Inl e \<Rightarrow> Inl e
                   | Inr (f, r3) \<Rightarrow>
                       (case render_field mini kw f of
                          Inl e \<Rightarrow> Inl e
                        | Inr txt \<Rightarrow>
                            (case py_format mini r3 kw of
                               Inl e \<Rightarrow> Inl e
                             | Inr out \<Rightarrow>
                                 Inr (takeWhile (\<lambda>c. \<not> is_brace c) rest @ txt @ out))))))) = Inl x"
    by (subst (asm) py_format.simps)
  then show ?thesis
    by (subst py_format.simps, cases "dropWhile (\<lambda>c. \<not> is_brace c) rest")
       (auto simp: dw split: list.splits if_splits sum.splits prod.splits)
qed


lemma py_format_prefix_error:
  "py_format mini pre kw = Inr out \<Longrightarrow> py_format mini rest kw = Inl x \<Longrightarrow>
   py_format mini (pre @ rest) kw = Inl x"
proof (induction mini pre kw arbitrary: out rule: py_format.induct)
  case (1 mini s kwargs)
  note unfolded = "1.prems"(1) [unfolded py_format.simps [of mini s kwargs]]
  show ?case
  proof (cases "dropWhile (\<lambda>c. \<not> is_brace c) s")
    case Nil
    then have "\<forall>c\<in>set s. \<not> is_brace c" by (simp add: dropWhile_eq_Nil_conv)
    then show ?thesis using "1.prems"(2) by (rule py_format_literal_error)
  next
    case dws: (Cons c r1)
    then have "dropWhile (\<lambda>c. \<not> is_brace c) s \<noteq> []" by simp
    then obtain b where b: "b \<in> set s" "\<not> \<not> is_brace b"
      by (auto simp: dropWhile_eq_Nil_conv)
    have dw: "dropWhile (\<lambda>c. \<not> is_brace c) (s @ rest) = c # r1 @ rest"
      using dropWhile_append1 [of b s "\<lambda>c. \<not> is_brace c" rest] b dws by simp
    show ?thesis
    proof (cases r1)
      case Nil
      with dws unfolded show ?thesis by simp
    next
      case r1: (Cons c2 r2)
      show ?thesis
      proof (cases "c2 = c")
        case True
        with dws r1 unfolded obtain out2 where "py_format mini r2 kwargs = Inr out2"
          by (auto split: sum.splits)
        from "1.IH"(1) [OF dws r1 True this "1.prems"(2)]
        have "py_format mini (r2 @ rest) kwargs = Inl x" .
        with True r1 show ?thesis
          by (subst py_format.simps) (simp add: dw)
      next
        case False
        with dws r1 unfolded have nc: "c \<noteq> CHR ''}''" by (auto split: if_splits)
        with False dws r1 unfolded obtain f r3 tx out3 where
          pf: "parse_field r1 = Inr (f, r3)" and rf: "render_field mini kwargs f = Inr tx"
          and rec: "py_format mini r3 kwargs = Inr out3"
          by (auto split: sum.splits prod.splits)
        from "1.IH"(2) [OF dws r1 False nc pf refl rf rec "1.prems"(2)]
        have ih: "py_format mini (r3 @ rest) kwargs = Inl x" .
        from parse_field_append [OF pf, of rest] r1
        have pf': "parse_field (c2 # r2 @ rest) = Inr (f, r3 @ rest)" by simp
        from False nc r1 show ?thesis
          by (subst py_format.simps) (simp add: dw pf' rf ih)
      qed
    qed
  qed
qed

text \<open>
  A name that is not among the keyword arguments is never found: the lookup raises
  \<open>KeyError\<close> with the name, or \<open>IndexError\<close> or \<open>ValueError\<close> when the name is read
  as an index. The lookup comes before the conversion and the format specification.
\<close>

lemma lookup_arg_missing:
  assumes "map_of kw nm = None"
  shows "lookup_arg kw nm = lookup_arg [] nm"
    and "\<exists>x. lookup_arg kw nm = Inl x \<and> (x = KeyError nm \<or> x = IndexError \<or> x = ValueError)"
    and "nm \<noteq> [] \<Longrightarrow> \<not> is_digit (hd nm) \<Longrightarrow> lookup_arg kw nm = Inl (KeyError nm)"
proof -
  show "lookup_arg kw nm = lookup_arg [] nm"
    using assms by (simp add: lookup_arg_def split: sum.splits option.splits)
  have "get_integer a cs = Inl e \<Longrightarrow> e = ValueError" for a cs e
    by (induction a cs rule: get_integer.induct) (simp split: if_splits)+
  then show "\<exists>x. lookup_arg kw nm = Inl x \<and> (x = KeyError nm \<or> x = IndexError \<or> x = ValueError)"
    using assms by (auto simp: lookup_arg_def split: sum.splits option.splits)
  show "lookup_arg kw nm = Inl (KeyError nm)" if "nm \<noteq> []" "\<not> is_digit (hd nm)"
    using that assms by (cases nm) (simp_all add: lookup_arg_def)
qed

lemma py_format_field_error:
  assumes "c \<noteq> CHR ''{''" and "parse_field (c # r) = Inr (f, post)"
      and "lookup_arg kw (arg_name (field_name f)) = Inl x"
  shows "py_format mini (CHR ''{'' # c # r) kw = Inl x"
  using assms
  by (subst py_format.simps) (simp add: is_brace_def render_field_def)

text \<open>A template that is one field with the name of a keyword argument.\<close>

lemma py_format_one_field:
  assumes "map_of kw nm = Some v" and "nm \<noteq> []" and "\<not> is_digit (hd nm)"
      and "\<forall>c\<in>set nm. c \<noteq> CHR ''{'' \<and> c \<noteq> CHR ''}'' \<and> c \<noteq> CHR ''['' \<and> c \<noteq> CHR ''.'' \<and> c \<noteq> CHR ''!'' \<and> c \<noteq> CHR '':''"
  shows "py_format mini (CHR ''{'' # nm @ ''}'') kw = Inr (py_str v)"
proof -
  have sc: "scan_field_name (nm @ ''}'') = Inr (nm, Some CHR ''}'', [])"
    using assms(4) by (induction nm) (simp_all add: scan_field_name.simps)
  obtain c r where nm: "nm = c # r" using assms(2) by (cases nm) auto
  with assms(4) have c: "c \<noteq> CHR ''{''" by simp
  have an: "arg_name nm = nm" "arg_rest nm = []"
    using assms(4) by (simp_all add: arg_name_def arg_rest_def)
  have lk: "lookup_arg kw nm = Inr v"
    using assms(1,3) nm by (simp add: lookup_arg_def)
  have e: "py_format mini [] kw = Inr []" by (subst py_format.simps) simp
  show ?thesis
    using sc c an lk e unfolding nm
    by (subst py_format.simps) (simp add: is_brace_def parse_field_def render_field_def)
qed

text \<open>
  The model at some templates, with the exceptions that CPython 3.11 raises for them.
\<close>

lemma format_digits_overflow_before_letter: "py_format no_mini ''{9999999999999999999a}'' [] = Inl ValueError"
  by code_simp

lemma format_digits_then_letter: "py_format no_mini ''{9223372036854775807a}'' [] = Inl (KeyError ''9223372036854775807a'')"
  by code_simp

lemma format_index_overflow: "py_format no_mini ''{9223372036854775808}'' [] = Inl ValueError"
  by code_simp

lemma format_largest_index: "py_format no_mini ''{9223372036854775807}'' [] = Inl IndexError"
  by code_simp

lemma format_digit_letter_attribute: "py_format no_mini ''{0a.b}'' [] = Inl (KeyError ''0a'')"
  by code_simp

lemma format_empty_name: "py_format no_mini ''{}'' [] = Inl IndexError"
  by code_simp

lemma format_leading_zeros: "py_format no_mini ''{00000000000000000000000000001}'' [] = Inl IndexError"
  by code_simp

lemma format_digits_letter: "py_format no_mini ''{12a}'' [] = Inl (KeyError ''12a'')"
  by code_simp

lemma format_status_field: "py_format no_mini ''{status}'' [(''status'', PStr ''online'')] = Inr ''online''"
  by code_simp

lemma format_escaped_brace_then_field: "py_format no_mini ''}}{foo}'' [] = Inl (KeyError ''foo'')"
  by code_simp

lemma format_brace_conversion: "py_format no_mini ''{foo!}}'' [] = Inl (KeyError ''foo'')"
  by code_simp

lemma format_trailing_brace: "py_format no_mini ''{name}{'' [(''name'', PStr ''A'')] = Inl ValueError"
  by code_simp


section \<open>The channel name: offline label and cut\<close>

text \<open>
  Claim C1. When the status in the snapshot is \<open>"offline"\<close> (also when it is missing,
  the default), the name computed at lines 141 to 149 is \<open>"[OFFLINE] "\<close> followed by the
  entry's stored name if there is one, else by the snapshot's name (\<open>"Unknown"\<close> when
  the snapshot has none), whatever the template and whatever the mini-language does: the
  template is not read. Line 152 then keeps the first 100 characters of that name.
\<close>

theorem offline_name_bypasses_template:
  assumes "dict_get attributes ''status'' (PStr ''offline'') = PStr ''offline''"
  shows "format_channel_name mini fmt sd attributes =
           Inr (''[OFFLINE] '' @ py_str (stored_name sd (dict_get attributes ''name'' (PStr ''Unknown''))))
       \<and> new_channel_name mini fmt sd attributes =
           Inr (take 100 (''[OFFLINE] '' @ py_str (stored_name sd (dict_get attributes ''name'' (PStr ''Unknown'')))))"
  using assms by (simp add: format_channel_name_def new_channel_name_def Let_def)

theorem offline_name_bypasses_template_witness:
  "dict_get [(''status'', PStr ''offline''), (''name'', PStr ''Alpha'')] ''status'' (PStr ''offline'') = PStr ''offline''
   \<and> format_channel_name no_mini ''[{players}/{max}] {name}''
        \<lparr>sd_channel_id = Some 1, sd_name = Some (PStr ''My Server'')\<rparr>
        [(''status'', PStr ''offline''), (''name'', PStr ''Alpha'')] = Inr ''[OFFLINE] My Server''
   \<and> format_channel_name no_mini ''{nonsense''
        \<lparr>sd_channel_id = Some 1, sd_name = None\<rparr>
        [(''status'', PStr ''offline''), (''name'', PStr ''Alpha'')] = Inr ''[OFFLINE] Alpha''"
  using offline_name_bypasses_template [of "[(''status'', PStr ''offline''), (''name'', PStr ''Alpha'')]"
          no_mini "''[{players}/{max}] {name}''" "\<lparr>sd_channel_id = Some 1, sd_name = Some (PStr ''My Server'')\<rparr>"]
        offline_name_bypasses_template [of "[(''status'', PStr ''offline''), (''name'', PStr ''Alpha'')]"
          no_mini "''{nonsense''" "\<lparr>sd_channel_id = Some 1, sd_name = None\<rparr>"]
  by (simp add: dict_get_def stored_name_def)

text \<open>
  Claim C2. In \<open>refresh_servers\<close> the slice \<open>[:100]\<close> is on the template branch only:
  for an offline server whose stored name has 95 characters the command renames the
  channel to all 105 characters, where the background pass keeps the first 100.
\<close>

theorem refresh_offline_name_not_cut:
  "refresh_new_name no_mini ''[{players}/{max}] {name}''
     \<lparr>sd_channel_id = Some 1, sd_name = Some (PStr (replicate 95 CHR ''a''))\<rparr>
     [(''status'', PStr ''offline'')] = Inr (''[OFFLINE] '' @ replicate 95 CHR ''a'')
   \<and> length (''[OFFLINE] '' @ replicate 95 CHR ''a'') = 105
   \<and> new_channel_name no_mini ''[{players}/{max}] {name}''
     \<lparr>sd_channel_id = Some 1, sd_name = Some (PStr (replicate 95 CHR ''a''))\<rparr>
     [(''status'', PStr ''offline'')] = Inr (''[OFFLINE] '' @ replicate 90 CHR ''a'')"
  by (simp add: refresh_new_name_def new_channel_name_def format_channel_name_def
                dict_get_def stored_name_def Let_def)

text \<open>
  In the background pass the slice follows the \<open>if\<close>, so it cuts both branches, and an
  exception of the formatter passes through unchanged; a slice raises nothing.
\<close>

lemma background_name_is_cut:
  "format_channel_name mini fmt sd attributes = Inr s \<Longrightarrow>
   new_channel_name mini fmt sd attributes = Inr (take 100 s)"
  by (simp add: new_channel_name_def)

lemma background_name_at_most_100:
  "new_channel_name mini fmt sd attributes = Inr n \<Longrightarrow> length n \<le> 100"
  by (auto simp: new_channel_name_def split: sum.splits)

section \<open>Entries whose channel is gone\<close>

text \<open>
  Claim C6, as the code has it. An entry without a channel id, or whose channel id does
  not resolve to a channel of the guild, is left before the fetch: the pass makes no
  call for it (no fetch, no rename, no delay) and the world is unchanged.
\<close>

theorem missing_channel_skips_entry:
  assumes "sd_channel_id sd = None \<or> sd_channel_id sd = Some 0
           \<or> (\<exists>cid. sd_channel_id sd = Some cid \<and> channels w cid = None)"
  shows "update_entry e fmt (sid, sd) w = Inr w"
  using assms by (auto simp: update_entry_def)

theorem missing_channel_skips_entry_witness:
  "(sd_channel_id \<lparr>sd_channel_id = Some 7, sd_name = None\<rparr> = None
    \<or> sd_channel_id \<lparr>sd_channel_id = Some 7, sd_name = None\<rparr> = Some 0
    \<or> (\<exists>cid. sd_channel_id \<lparr>sd_channel_id = Some 7, sd_name = None\<rparr> = Some cid
          \<and> channels \<lparr>channels = [1 \<mapsto> ''x''], trace = []\<rparr> cid = None))
   \<and> update_entry \<lparr>api_token = None, http_get = (\<lambda>r. Raises TimeoutError),
                 channel_edit = (\<lambda>c n. True), create_voice_channel = (\<lambda>n. None), format_mini = no_mini\<rparr>
        ''{name}'' (''12345'', \<lparr>sd_channel_id = Some 7, sd_name = None\<rparr>)
        \<lparr>channels = [1 \<mapsto> ''x''], trace = []\<rparr>
      = Inr \<lparr>channels = [1 \<mapsto> ''x''], trace = []\<rparr>"
  using missing_channel_skips_entry [of "\<lparr>sd_channel_id = Some 7, sd_name = None\<rparr>"
     "\<lparr>channels = [1 \<mapsto> ''x''], trace = []\<rparr>"
     "\<lparr>api_token = None, http_get = (\<lambda>r. Raises TimeoutError),
       channel_edit = (\<lambda>c n. True), create_voice_channel = (\<lambda>n. None), format_mini = no_mini\<rparr>"
     "''{name}''" "''12345''"]
  by simp

text \<open>
  The claim as stated fails: with channel 7 missing, the pass ends with an empty
  trace, so no fetch was made for server 12345.
\<close>

theorem missing_channel_no_fetch_counterexample:
  "update_entry \<lparr>api_token = None, http_get = (\<lambda>r. Response 200 (DataDict [(''attributes'', Object [(''status'', PStr ''online'')])])),
                 channel_edit = (\<lambda>c n. True), create_voice_channel = (\<lambda>n. None), format_mini = no_mini\<rparr>
     ''[{players}/{max}] {name}''
     (''12345'', \<lparr>sd_channel_id = Some 7, sd_name = Some (PStr ''Alpha'')\<rparr>)
     \<lparr>channels = Map.empty, trace = []\<rparr>
   = Inr \<lparr>channels = Map.empty, trace = []\<rparr>
   \<and> Fetch ''12345'' \<notin> set (trace \<lparr>channels = Map.empty, trace = []\<rparr>)"
  by (simp add: update_entry_def)

section \<open>The pacing delay\<close>

text \<open>
  Claim C5. For an entry whose channel exists: when the fetch gave a payload and the name
  was computed, the pass sleeps 2 seconds after the apply step, whether the rename was
  issued (accepted or rejected by Discord, which the trace does not depend on) or left
  out because the channel already has the name; when the fetch gave nothing (\<open>None\<close> or
  an empty dictionary) the entry ends after the fetch, with no sleep.
\<close>

theorem pacing_delay_after_apply_only:
  assumes "sd_channel_id sd = Some cid" and "cid \<noteq> 0" and "channels w cid = Some cur"
  shows "(fetch_server_info e sid = Some i \<and> i \<noteq> [] \<and> get_attributes i = Inr attributes
            \<and> new_channel_name (format_mini e) fmt sd attributes = Inr new_name
          \<longrightarrow> (\<exists>w'. update_entry e fmt (sid, sd) w = Inr w'
                 \<and> trace w' = trace w @ [Fetch sid]
                               @ (if cur = new_name then [] else [Edit cid new_name])
                               @ [Sleep 2]))
       \<and> (fetch_server_info e sid = None \<or> fetch_server_info e sid = Some []
          \<longrightarrow> update_entry e fmt (sid, sd) w = Inr (w\<lparr>trace := trace w @ [Fetch sid]\<rparr>))"
  using assms by (auto simp: update_entry_def apply_name_def Let_def)

theorem pacing_delay_after_apply_only_witness:
  "sd_channel_id \<lparr>sd_channel_id = Some 5, sd_name = None\<rparr> = Some 5 \<and> (5::int) \<noteq> 0
   \<and> channels \<lparr>channels = [5 \<mapsto> ''old''], trace = []\<rparr> 5 = Some ''old''
   \<and> update_entry \<lparr>api_token = None, http_get = (\<lambda>r. Raises TimeoutError),
                 channel_edit = (\<lambda>c n. True), create_voice_channel = (\<lambda>n. None), format_mini = no_mini\<rparr>
        ''{name}'' (''12345'', \<lparr>sd_channel_id = Some 5, sd_name = None\<rparr>)
        \<lparr>channels = [5 \<mapsto> ''old''], trace = []\<rparr>
      = Inr \<lparr>channels = [5 \<mapsto> ''old''], trace = [Fetch ''12345'']\<rparr>
   \<and> (\<exists>w'. update_entry \<lparr>api_token = None,
                 http_get = (\<lambda>r. Response 200 (DataDict [(''attributes'', Object [(''name'', PStr ''Alpha'')])])),
                 channel_edit = (\<lambda>c n. False), create_voice_channel = (\<lambda>n. None), format_mini = no_mini\<rparr>
        ''{name}'' (''12345'', \<lparr>sd_channel_id = Some 5, sd_name = None\<rparr>)
        \<lparr>channels = [5 \<mapsto> ''old''], trace = []\<rparr> = Inr w'
      \<and> trace w' = [Fetch ''12345'', Edit 5 ''[OFFLINE] Alpha'', Sleep 2])"
  using pacing_delay_after_apply_only [of "\<lparr>sd_channel_id = Some 5, sd_name = None\<rparr>" 5
     "\<lparr>channels = [5 \<mapsto> ''old''], trace = []\<rparr>" "''old''"
     "\<lparr>api_token = None, http_get = (\<lambda>r. Raises TimeoutError),
       channel_edit = (\<lambda>c n. True), create_voice_channel = (\<lambda>n. None), format_mini = no_mini\<rparr>"
     "''12345''" "[]" "[]" "''{name}''" "''x''"]
    pacing_delay_after_apply_only [of "\<lparr>sd_channel_id = Some 5, sd_name = None\<rparr>" 5
     "\<lparr>channels = [5 \<mapsto> ''old''], trace = []\<rparr>" "''old''"
     "\<lparr>api_token = None,
       http_get = (\<lambda>r. Response 200 (DataDict [(''attributes'', Object [(''name'', PStr ''Alpha'')])])),
       channel_edit = (\<lambda>c n. False), create_voice_channel = (\<lambda>n. None), format_mini = no_mini\<rparr>"
     "''12345''" "[(''attributes'', Object [(''name'', PStr ''Alpha'')])]" "[(''name'', PStr ''Alpha'')]"
     "''{name}''" "''[OFFLINE] Alpha''"]
  by (simp add: fetch_server_info_def fetch_attempt_def get_attributes_def new_channel_name_def
                format_channel_name_def dict_get_def stored_name_def)

section \<open>The fetch\<close>

text \<open>
  Claim C7, as the code has it. \<open>_fetch_server_info\<close> returns a payload only for status
  200, and then only when the body decodes to a dictionary: the value under \<open>"data"\<close>, or
  the empty dictionary when that key is missing. It returns \<open>None\<close> when the request raises
  (a timeout, a network error, any other exception), for status 429 and every other
  status, and whenever the \<open>try\<close> block raises, as for a 200 body that does not decode;
  a null \<open>"data"\<close> gives \<open>None\<close> too. No exception leaves the function. The request is made
  with a timeout of 30.
\<close>

theorem fetch_absent_unless_decoded_200:
  "(fetch_server_info e sid = Some p \<longleftrightarrow>
      (\<exists>b. http_get e (make_request (api_token e) sid) = Response 200 b
           \<and> (b = DataDict p \<or> (b = NoDataKey \<and> p = []))))
   \<and> (\<forall>x. http_get e (make_request (api_token e) sid) = Raises x \<longrightarrow> fetch_server_info e sid = None)
   \<and> (\<forall>st b. http_get e (make_request (api_token e) sid) = Response st b \<and> st \<noteq> 200
         \<longrightarrow> fetch_server_info e sid = None)
   \<and> (\<forall>x. fetch_attempt (http_get e (make_request (api_token e) sid)) = Inl x
         \<longrightarrow> fetch_server_info e sid = None)
   \<and> timeout (make_request (api_token e) sid) = 30"
  by (auto simp: fetch_server_info_def fetch_attempt_def make_request_def
           split: http_outcome.splits body.splits exn.splits sum.splits if_splits)

theorem fetch_absent_unless_decoded_200_witness:
  "fetch_server_info \<lparr>api_token = Some ''tok'',
        http_get = (\<lambda>r. if timeout r = 30 \<and> headers r = [(''Authorization'', ''Bearer tok'')]
                             then Response 200 (DataDict [(''id'', Scalar (PStr ''12345''))])
                             else Raises ClientError),
        channel_edit = (\<lambda>c n. True), create_voice_channel = (\<lambda>n. None), format_mini = no_mini\<rparr>
     ''12345'' = Some [(''id'', Scalar (PStr ''12345''))]"
  using fetch_absent_unless_decoded_200 [of
     "\<lparr>api_token = Some ''tok'',
        http_get = (\<lambda>r. if timeout r = 30 \<and> headers r = [(''Authorization'', ''Bearer tok'')]
                             then Response 200 (DataDict [(''id'', Scalar (PStr ''12345''))])
                             else Raises ClientError),
        channel_edit = (\<lambda>c n. True), create_voice_channel = (\<lambda>n. None), format_mini = no_mini\<rparr>"
     "''12345''" "[(''id'', Scalar (PStr ''12345''))]"]
  by (simp add: make_request_def)

text \<open>
  The claim as stated fails: a response with status 200 whose body does not decode
  gives \<open>None\<close>, not a payload.
\<close>

theorem fetch_200_undecodable_counterexample:
  "http_get \<lparr>api_token = None, http_get = (\<lambda>r. Response 200 Undecodable),
              channel_edit = (\<lambda>c n. True), create_voice_channel = (\<lambda>n. None), format_mini = no_mini\<rparr>
     (make_request None ''12345'') = Response 200 Undecodable
   \<and> fetch_server_info \<lparr>api_token = None, http_get = (\<lambda>r. Response 200 Undecodable),
              channel_edit = (\<lambda>c n. True), create_voice_channel = (\<lambda>n. None), format_mini = no_mini\<rparr>
     ''12345'' = None"
  by (simp add: fetch_server_info_def fetch_attempt_def)

section \<open>The name given at registration\<close>

text \<open>
  Claim C10. \<open>add_server\<close> computes the first channel name from the template with the
  status set to the literal \<open>"online"\<close>, cut to 100 characters, whatever the fetched
  status is: the template \<open>{status}\<close> gives the name \<open>online\<close> for every snapshot; the
  keyword arguments are the fetched players and maxPlayers, the custom or fetched name,
  and \<open>"online"\<close>; two snapshots that agree on players, maxPlayers and name give the same
  name; and the channel that \<open>add_server\<close> creates has exactly this name, so no
  \<open>"[OFFLINE] "\<close> label is put in front at creation time.
\<close>

theorem add_name_has_status_online:
  "add_channel_name mini ''{status}'' custom_name a = Inr ''online''
   \<and> add_channel_name mini fmt custom_name a =
       (case py_format mini fmt
               [(''players'', dict_get a ''players'' (PInt 0)),
                (''max'', dict_get a ''maxPlayers'' (PInt 0)),
                (''name'', case custom_name of
                             None \<Rightarrow> dict_get a ''name'' (PStr ''Unknown Server'')
                           | Some c \<Rightarrow> if c = [] then dict_get a ''name'' (PStr ''Unknown Server'') else PStr c),
                (''status'', PStr ''online'')] of
          Inl x \<Rightarrow> Inl x | Inr n \<Rightarrow> Inr (take 100 n))
   \<and> (map_of a ''players'' = map_of a' ''players'' \<and> map_of a ''maxPlayers'' = map_of a' ''maxPlayers''
        \<and> map_of a ''name'' = map_of a' ''name''
      \<longrightarrow> add_channel_name mini fmt custom_name a = add_channel_name mini fmt custom_name a')
   \<and> (add_server e g server_id custom_name = Inr (Created cid channel_name)
      \<longrightarrow> (\<exists>i attributes. fetch_server_info e server_id = Some i \<and> get_attributes i = Inr attributes
              \<and> add_channel_name (format_mini e) (channel_format g) custom_name attributes = Inr channel_name
              \<and> create_voice_channel e channel_name = Some cid))
   \<and> (category_id g = Some cat \<and> cat \<noteq> 0 \<and> guild_channels g cat = Some category
        \<and> fetch_server_info e server_id = Some i \<and> i \<noteq> [] \<and> get_attributes i = Inr attributes
        \<and> add_channel_name (format_mini e) (channel_format g) custom_name attributes = Inr channel_name
        \<and> create_voice_channel e channel_name = Some cid
      \<longrightarrow> add_server e g server_id custom_name = Inr (Created cid channel_name))"
proof (intro conjI impI)
  have "py_format mini (CHR ''{'' # ''status'' @ ''}'') (format_kwargs p m n (PStr ''online'')) = Inr (py_str (PStr ''online''))"
    for p m n
    by (rule py_format_one_field) (simp_all add: format_kwargs_def is_digit_def)
  then show "add_channel_name mini ''{status}'' custom_name a = Inr ''online''"
    by (simp add: add_channel_name_def Let_def)
next
  show "add_channel_name mini fmt custom_name a =
       (case py_format mini fmt
               [(''players'', dict_get a ''players'' (PInt 0)),
                (''max'', dict_get a ''maxPlayers'' (PInt 0)),
                (''name'', case custom_name of
                             None \<Rightarrow> dict_get a ''name'' (PStr ''Unknown Server'')
                           | Some c \<Rightarrow> if c = [] then dict_get a ''name'' (PStr ''Unknown Server'') else PStr c),
                (''status'', PStr ''online'')] of
          Inl x \<Rightarrow> Inl x | Inr n \<Rightarrow> Inr (take 100 n))"
    by (simp add: add_channel_name_def Let_def format_kwargs_def)
next
  assume h: "map_of a ''players'' = map_of a' ''players'' \<and> map_of a ''maxPlayers'' = map_of a' ''maxPlayers''
        \<and> map_of a ''name'' = map_of a' ''name''"
  have eq: "dict_get a ''players'' d = dict_get a' ''players'' d"
           "dict_get a ''maxPlayers'' d = dict_get a' ''maxPlayers'' d"
           "dict_get a ''name'' d = dict_get a' ''name'' d" for d
    using h by (simp_all add: dict_get_def)
  show "add_channel_name mini fmt custom_name a = add_channel_name mini fmt custom_name a'"
    by (cases custom_name) (simp_all add: add_channel_name_def Let_def eq)
next
  assume "add_server e g server_id custom_name = Inr (Created cid channel_name)"
  then show "\<exists>i attributes. fetch_server_info e server_id = Some i \<and> get_attributes i = Inr attributes
              \<and> add_channel_name (format_mini e) (channel_format g) custom_name attributes = Inr channel_name
              \<and> create_voice_channel e channel_name = Some cid"
    by (auto simp: add_server_def split: option.splits if_splits sum.splits)
next
  assume "category_id g = Some cat \<and> cat \<noteq> 0 \<and> guild_channels g cat = Some category
        \<and> fetch_server_info e server_id = Some i \<and> i \<noteq> [] \<and> get_attributes i = Inr attributes
        \<and> add_channel_name (format_mini e) (channel_format g) custom_name attributes = Inr channel_name
        \<and> create_voice_channel e channel_name = Some cid"
  then show "add_server e g server_id custom_name = Inr (Created cid channel_name)"
    by (simp add: add_server_def)
qed

lemma registering_fetch:
  "fetch_server_info registering_env sid
     = Some [(''attributes'', Object [(''players'', PInt 0), (''maxPlayers'', PInt 64),
                                      (''name'', PStr ''Alpha''), (''status'', PStr ''offline'')])]"
  by (simp add: registering_env_def fetch_server_info_def fetch_attempt_def)

lemma registering_name:
  "add_channel_name no_mini ''{status}: [{players}/{max}] {name}'' None
        [(''players'', PInt 0), (''maxPlayers'', PInt 64), (''name'', PStr ''Alpha''), (''status'', PStr ''offline'')]
     = Inr ''online: [0/64] Alpha''"
  by code_simp

lemma registering_add_server:
  "add_server registering_env registering_guild ''1'' None = Inr (Created 7 ''online: [0/64] Alpha'')"
proof -
  have m: "format_mini registering_env = no_mini" "create_voice_channel registering_env n = Some 7" for n
    by (simp_all add: registering_env_def)
  show ?thesis
    by (simp add: add_server_def registering_guild_def registering_fetch get_attributes_def m
                  registering_name)
qed

theorem add_name_has_status_online_witness:
  "add_server registering_env registering_guild ''1'' None = Inr (Created 7 ''online: [0/64] Alpha'')
   \<and> add_channel_name no_mini ''{status}: [{players}/{max}] {name}'' None
        [(''players'', PInt 0), (''maxPlayers'', PInt 64), (''name'', PStr ''Alpha''), (''status'', PStr ''offline'')]
     = add_channel_name no_mini ''{status}: [{players}/{max}] {name}'' None
        [(''players'', PInt 0), (''maxPlayers'', PInt 64), (''name'', PStr ''Alpha''), (''status'', PStr ''online'')]
   \<and> (\<exists>i attributes. fetch_server_info registering_env ''1'' = Some i \<and> get_attributes i = Inr attributes
         \<and> add_channel_name (format_mini registering_env) (channel_format registering_guild) None attributes
             = Inr ''online: [0/64] Alpha''
         \<and> create_voice_channel registering_env ''online: [0/64] Alpha'' = Some 7)
   \<and> new_channel_name no_mini ''{status}: [{players}/{max}] {name}'' \<lparr>sd_channel_id = Some 7, sd_name = None\<rparr>
        [(''players'', PInt 0), (''maxPlayers'', PInt 64), (''name'', PStr ''Alpha''), (''status'', PStr ''offline'')]
     = Inr ''[OFFLINE] Alpha''"
proof -
  note t = add_name_has_status_online [where mini = no_mini and custom_name = None
      and a = "[(''players'', PInt 0), (''maxPlayers'', PInt 64), (''name'', PStr ''Alpha''), (''status'', PStr ''offline'')]"
      and fmt = "''{status}: [{players}/{max}] {name}''"
      and a' = "[(''players'', PInt 0), (''maxPlayers'', PInt 64), (''name'', PStr ''Alpha''), (''status'', PStr ''online'')]"
      and e = registering_env and g = registering_guild and server_id = "''1''" and cid = 7
      and channel_name = "''online: [0/64] Alpha''"]
  from t [THEN conjunct2, THEN conjunct2, THEN conjunct1]
  have same: "add_channel_name no_mini ''{status}: [{players}/{max}] {name}'' None
        [(''players'', PInt 0), (''maxPlayers'', PInt 64), (''name'', PStr ''Alpha''), (''status'', PStr ''offline'')]
     = add_channel_name no_mini ''{status}: [{players}/{max}] {name}'' None
        [(''players'', PInt 0), (''maxPlayers'', PInt 64), (''name'', PStr ''Alpha''), (''status'', PStr ''online'')]"
    by simp
  from t [THEN conjunct2, THEN conjunct2, THEN conjunct2, THEN conjunct1] registering_add_server
  have link: "\<exists>i attributes. fetch_server_info registering_env ''1'' = Some i \<and> get_attributes i = Inr attributes
         \<and> add_channel_name (format_mini registering_env) (channel_format registering_guild) None attributes
             = Inr ''online: [0/64] Alpha''
         \<and> create_voice_channel registering_env ''online: [0/64] Alpha'' = Some 7"
    by simp
  have label: "new_channel_name no_mini ''{status}: [{players}/{max}] {name}'' \<lparr>sd_channel_id = Some 7, sd_name = None\<rparr>
        [(''players'', PInt 0), (''maxPlayers'', PInt 64), (''name'', PStr ''Alpha''), (''status'', PStr ''offline'')]
     = Inr ''[OFFLINE] Alpha''"
    by (simp add: new_channel_name_def format_channel_name_def dict_get_def stored_name_def)
  from registering_add_server same link label show ?thesis by (intro conjI)
qed

text \<open>An offline server registered with the default template.\<close>

lemma add_name_offline_example:
  "add_channel_name no_mini ''[{players}/{max}] {name}'' None
        [(''status'', PStr ''offline''), (''name'', PStr ''Alpha''), (''players'', PInt 0), (''maxPlayers'', PInt 64)]
     = Inr ''[0/64] Alpha''"
  by code_simp

section \<open>Templates with an unknown placeholder\<close>

lemma py_format_single_brace:
  "t = [] \<or> hd t \<noteq> CHR ''}'' \<Longrightarrow> py_format mini (CHR ''}'' # t) kw = Inl ValueError"
  "py_format mini ''{'' kw = Inl ValueError"
  by (subst py_format.simps, cases t, simp_all add: is_brace_def)+

text \<open>
  Claim C8, as the code has it. \<open>str.format\<close> is called on the raw template, so a
  replacement field whose argument name (the field name up to the first \<open>.\<close> or \<open>[\<close>)
  is not \<open>players\<close>, \<open>max\<close>, \<open>name\<close> or \<open>status\<close> is not left as it is written. For a
  snapshot that is not offline, when the text before the field formats without error,
  the formatter raises at the field and no name is computed, whatever conversion or
  format specification the field has and whatever follows it. The exception is the one of
  the lookup of the name among no arguments: \<open>KeyError\<close> with the name when the name is
  not empty and does not begin with a digit, \<open>IndexError\<close> when it is empty, and
  \<open>KeyError\<close>, \<open>IndexError\<close> or \<open>ValueError\<close> otherwise. A closing brace that is not
  doubled, and an opening brace that ends the template, raise \<open>ValueError\<close>.
\<close>

theorem unknown_placeholder_raises:
  assumes status: "dict_get attributes ''status'' (PStr ''offline'') \<noteq> PStr ''offline''"
      and before: "format_channel_name mini pre sd attributes = Inr out"
  shows "(c \<noteq> CHR ''{'' \<and> parse_field (c # r) = Inr (f, post)
            \<and> arg_name (field_name f) \<notin> {''players'', ''max'', ''name'', ''status''}
          \<longrightarrow> (\<exists>x. format_channel_name mini (pre @ CHR ''{'' # c # r) sd attributes = Inl x
                  \<and> new_channel_name mini (pre @ CHR ''{'' # c # r) sd attributes = Inl x
                  \<and> lookup_arg [] (arg_name (field_name f)) = Inl x
                  \<and> (x = KeyError (arg_name (field_name f)) \<or> x = IndexError \<or> x = ValueError)
                  \<and> (arg_name (field_name f) \<noteq> [] \<and> \<not> is_digit (hd (arg_name (field_name f)))
                       \<longrightarrow> x = KeyError (arg_name (field_name f)))
                  \<and> (arg_name (field_name f) = [] \<longrightarrow> x = IndexError)))
       \<and> (t = [] \<or> hd t \<noteq> CHR ''}''
          \<longrightarrow> format_channel_name mini (pre @ CHR ''}'' # t) sd attributes = Inl ValueError
            \<and> new_channel_name mini (pre @ CHR ''}'' # t) sd attributes = Inl ValueError)
       \<and> format_channel_name mini (pre @ ''{'') sd attributes = Inl ValueError
       \<and> new_channel_name mini (pre @ ''{'') sd attributes = Inl ValueError"
proof -
  define kw where "kw = format_kwargs (dict_get attributes ''players'' (PInt 0))
      (dict_get attributes ''maxPlayers'' (PInt 0))
      (stored_name sd (dict_get attributes ''name'' (PStr ''Unknown'')))
      (dict_get attributes ''status'' (PStr ''offline''))"
  have fmt: "format_channel_name mini t sd attributes = py_format mini t kw" for t
    using status by (simp add: format_channel_name_def Let_def kw_def)
  from before have pre: "py_format mini pre kw = Inr out" by (simp add: fmt)
  have field: "\<exists>x. format_channel_name mini (pre @ CHR ''{'' # c # r) sd attributes = Inl x
                  \<and> new_channel_name mini (pre @ CHR ''{'' # c # r) sd attributes = Inl x
                  \<and> lookup_arg [] (arg_name (field_name f)) = Inl x
                  \<and> (x = KeyError (arg_name (field_name f)) \<or> x = IndexError \<or> x = ValueError)
                  \<and> (arg_name (field_name f) \<noteq> [] \<and> \<not> is_digit (hd (arg_name (field_name f)))
                       \<longrightarrow> x = KeyError (arg_name (field_name f)))
                  \<and> (arg_name (field_name f) = [] \<longrightarrow> x = IndexError)"
    if c: "c \<noteq> CHR ''{''" and pf: "parse_field (c # r) = Inr (f, post)"
      and unknown: "arg_name (field_name f) \<notin> {''players'', ''max'', ''name'', ''status''}"
  proof -
    have none: "map_of kw (arg_name (field_name f)) = None"
      using unknown by (simp add: kw_def format_kwargs_def)
    from lookup_arg_missing(2) [OF none] obtain x where
      x: "lookup_arg kw (arg_name (field_name f)) = Inl x"
         "x = KeyError (arg_name (field_name f)) \<or> x = IndexError \<or> x = ValueError"
      by blast
    have "py_format mini (CHR ''{'' # c # r) kw = Inl x"
      using c pf x(1) by (rule py_format_field_error)
    with pre have err: "py_format mini (pre @ CHR ''{'' # c # r) kw = Inl x"
      by (rule py_format_prefix_error)
    have k: "x = KeyError (arg_name (field_name f))"
      if "arg_name (field_name f) \<noteq> []" "\<not> is_digit (hd (arg_name (field_name f)))"
      using lookup_arg_missing(3) [OF none that] x(1) by simp
    have i: "x = IndexError" if "arg_name (field_name f) = []"
      using x(1) that by (simp add: lookup_arg_def)
    from x(1) have l: "lookup_arg [] (arg_name (field_name f)) = Inl x"
      using lookup_arg_missing(1) [OF none] by simp
    show ?thesis
      using err x(2) k i l by (intro exI [of _ x]) (simp add: fmt new_channel_name_def)
  qed
  have lone_close: "format_channel_name mini (pre @ CHR ''}'' # t) sd attributes = Inl ValueError
            \<and> new_channel_name mini (pre @ CHR ''}'' # t) sd attributes = Inl ValueError"
    if "t = [] \<or> hd t \<noteq> CHR ''}''"
    using py_format_prefix_error [OF pre py_format_single_brace(1) [OF that]]
    by (simp add: fmt new_channel_name_def)
  have lone_open: "format_channel_name mini (pre @ ''{'') sd attributes = Inl ValueError"
    "new_channel_name mini (pre @ ''{'') sd attributes = Inl ValueError"
    using py_format_prefix_error [OF pre py_format_single_brace(2)]
    by (simp_all add: fmt new_channel_name_def)
  from field lone_close lone_open show ?thesis by blast
qed

lemma prefix_with_escaped_braces:
  "format_channel_name no_mini ''{{x}} '' \<lparr>sd_channel_id = Some 1, sd_name = None\<rparr>
     [(''status'', PStr ''online'')] = Inr ''{x} ''"
  by code_simp

lemma field_with_attribute_conversion_spec:
  "parse_field ''foo.bar!r:>5} {name}''
   = Inr (\<lparr>field_name = ''foo.bar'', conversion = Some CHR ''r'', format_spec = ''>5''\<rparr>, '' {name}'')"
  by code_simp

theorem unknown_placeholder_raises_witness:
  "format_channel_name no_mini ''{{x}} {foo.bar!r:>5} {name}''
     \<lparr>sd_channel_id = Some 1, sd_name = None\<rparr> [(''status'', PStr ''online'')] = Inl (KeyError ''foo'')
   \<and> new_channel_name no_mini ''{{x}} {foo.bar!r:>5} {name}''
     \<lparr>sd_channel_id = Some 1, sd_name = None\<rparr> [(''status'', PStr ''online'')] = Inl (KeyError ''foo'')
   \<and> format_channel_name no_mini ''{{x}} } {name}''
     \<lparr>sd_channel_id = Some 1, sd_name = None\<rparr> [(''status'', PStr ''online'')] = Inl ValueError"
proof -
  note t = unknown_placeholder_raises [where attributes = "[(''status'', PStr ''online'')]"
      and mini = no_mini and pre = "''{{x}} ''" and sd = "\<lparr>sd_channel_id = Some 1, sd_name = None\<rparr>"
      and out = "''{x} ''" and c = "CHR ''f''" and r = "''oo.bar!r:>5} {name}''"
      and f = "\<lparr>field_name = ''foo.bar'', conversion = Some CHR ''r'', format_spec = ''>5''\<rparr>"
      and post = "'' {name}''" and t = "'' {name}''", OF _ prefix_with_escaped_braces]
  have s: "dict_get [(''status'', PStr ''online'')] ''status'' (PStr ''offline'') \<noteq> PStr ''offline''"
    by (simp add: dict_get_def)
  from t [OF s, THEN conjunct1] field_with_attribute_conversion_spec
  have "format_channel_name no_mini ''{{x}} {foo.bar!r:>5} {name}''
     \<lparr>sd_channel_id = Some 1, sd_name = None\<rparr> [(''status'', PStr ''online'')] = Inl (KeyError ''foo'')
   \<and> new_channel_name no_mini ''{{x}} {foo.bar!r:>5} {name}''
     \<lparr>sd_channel_id = Some 1, sd_name = None\<rparr> [(''status'', PStr ''online'')] = Inl (KeyError ''foo'')"
    by (auto simp: arg_name_def is_digit_def)
  moreover from t [OF s, THEN conjunct2, THEN conjunct1]
  have "format_channel_name no_mini ''{{x}} } {name}''
     \<lparr>sd_channel_id = Some 1, sd_name = None\<rparr> [(''status'', PStr ''online'')] = Inl ValueError"
    by simp
  ultimately show ?thesis by simp
qed

text \<open>
  The claim as stated fails: the template \<open>{foo}\<close> raises \<open>KeyError\<close> and is not
  left as the name \<open>{foo}\<close>.
\<close>

theorem unknown_placeholder_counterexample:
  "format_channel_name no_mini ''{foo}'' \<lparr>sd_channel_id = Some 1, sd_name = None\<rparr>
     [(''status'', PStr ''online''), (''name'', PStr ''Alpha'')] = Inl (KeyError ''foo'')
   \<and> format_channel_name no_mini ''{foo}'' \<lparr>sd_channel_id = Some 1, sd_name = None\<rparr>
     [(''status'', PStr ''online''), (''name'', PStr ''Alpha'')] \<noteq> Inr ''{foo}''"
  by code_simp

section \<open>One entry of the pass\<close>

text \<open>What the loop body does for one entry, case by case.\<close>

lemma update_entry_skipped:
  "sd_channel_id sd = None \<or> sd_channel_id sd = Some 0
     \<or> (\<exists>cid. sd_channel_id sd = Some cid \<and> channels w cid = None)
   \<Longrightarrow> update_entry e fmt (sid, sd) w = Inr w"
  by (auto simp: update_entry_def)

lemma update_entry_absent:
  "sd_channel_id sd = Some cid \<Longrightarrow> cid \<noteq> 0 \<Longrightarrow> channels w cid = Some cur \<Longrightarrow>
   fetch_server_info e sid = None \<or> fetch_server_info e sid = Some [] \<Longrightarrow>
   update_entry e fmt (sid, sd) w = Inr (w\<lparr>trace := trace w @ [Fetch sid]\<rparr>)"
  by (auto simp: update_entry_def)

lemma update_entry_named:
  "sd_channel_id sd = Some cid \<Longrightarrow> cid \<noteq> 0 \<Longrightarrow> channels w cid = Some cur \<Longrightarrow>
   fetch_server_info e sid = Some i \<Longrightarrow> i \<noteq> [] \<Longrightarrow> get_attributes i = Inr attributes \<Longrightarrow>
   new_channel_name (format_mini e) fmt sd attributes = Inr new_name \<Longrightarrow>
   update_entry e fmt (sid, sd) w =
     Inr (if cur = new_name then w\<lparr>trace := trace w @ [Fetch sid, Sleep 2]\<rparr>
          else if channel_edit e cid new_name
          then w\<lparr>channels := (channels w)(cid \<mapsto> new_name),
                 trace := trace w @ [Fetch sid, Edit cid new_name, Sleep 2]\<rparr>
          else w\<lparr>trace := trace w @ [Fetch sid, Edit cid new_name, Sleep 2]\<rparr>)"
  by (simp add: update_entry_def apply_name_def Let_def)

lemma update_entry_raises:
  "sd_channel_id sd = Some cid \<Longrightarrow> cid \<noteq> 0 \<Longrightarrow> channels w cid = Some cur \<Longrightarrow>
   fetch_server_info e sid = Some i \<Longrightarrow> i \<noteq> [] \<Longrightarrow>
   get_attributes i = Inl x
     \<or> (\<exists>attributes. get_attributes i = Inr attributes
           \<and> new_channel_name (format_mini e) fmt sd attributes = Inl x) \<Longrightarrow>
   update_entry e fmt (sid, sd) w = Inl (x, w\<lparr>trace := trace w @ [Fetch sid]\<rparr>)"
  by (auto simp: update_entry_def Let_def)

section \<open>Failure isolation in a tenant pass\<close>
























section \<open>No rename for an unchanged name\<close>

lemma offline_fetch:
  "fetch_server_info offline_env sid
     = Some [(''attributes'', Object [(''name'', PStr ''A''), (''status'', PStr ''offline'')])]"
  by (simp add: offline_env_def fetch_server_info_def fetch_attempt_def)

lemma offline_env_fields:
  "format_mini offline_env = no_mini" "channel_edit offline_env c n"
  by (simp_all add: offline_env_def)

lemma flaky_fetch_2:
  "fetch_server_info flaky_env ''2''
     = Some [(''attributes'', Object [(''name'', PStr ''A''), (''status'', PStr ''offline'')])]"
  by (simp add: flaky_env_def fetch_server_info_def fetch_attempt_def make_request_def
                BATTLEMETRICS_API_URL_def)

lemma flaky_env_fields:
  "format_mini flaky_env = no_mini" "\<not> channel_edit flaky_env c n"
  by (simp_all add: flaky_env_def)

text \<open>
  Claim C3, as the code has it. When the channel's current name equals the name computed
  for the entry, the pass fetches, issues no rename and sleeps. When the entry is
  processed a second time in the world its first processing left, with the same answer
  of the source, the second processing issues no rename provided that Discord accepted
  the rename of the first processing, if there was one: the channel has the computed
  name already. When Discord rejected that rename, the channel has kept its name and the
  second processing issues the same rename again.
\<close>

theorem unchanged_name_is_not_renamed:
  "(sd_channel_id sd = Some cid \<and> cid \<noteq> 0 \<and> channels w cid = Some cur
      \<and> fetch_server_info e sid = Some i \<and> i \<noteq> [] \<and> get_attributes i = Inr attributes
      \<and> new_channel_name (format_mini e) fmt sd attributes = Inr cur
    \<longrightarrow> update_entry e fmt (sid, sd) w = Inr (w\<lparr>trace := trace w @ [Fetch sid, Sleep 2]\<rparr>))
   \<and> (update_entry e fmt (sid, sd) w = Inr w1 \<and> trace w1 = trace w @ tr1
        \<and> (\<forall>c n. Edit c n \<in> set tr1 \<longrightarrow> channel_edit e c n)
    \<longrightarrow> (\<exists>tr. update_entry e fmt (sid, sd) w1 = Inr (w1\<lparr>trace := trace w1 @ tr\<rparr>)
             \<and> (\<forall>c n. Edit c n \<notin> set tr)))
   \<and> (update_entry e fmt (sid, sd) w = Inr w1 \<and> trace w1 = trace w @ tr1
        \<and> Edit c n \<in> set tr1 \<and> \<not> channel_edit e c n
    \<longrightarrow> update_entry e fmt (sid, sd) w1 = Inr (w1\<lparr>trace := trace w1 @ [Fetch sid, Edit c n, Sleep 2]\<rparr>))"
proof -
  have first_half: "update_entry e fmt (sid, sd) w = Inr (w\<lparr>trace := trace w @ [Fetch sid, Sleep 2]\<rparr>)"
    if "sd_channel_id sd = Some cid \<and> cid \<noteq> 0 \<and> channels w cid = Some cur
      \<and> fetch_server_info e sid = Some i \<and> i \<noteq> [] \<and> get_attributes i = Inr attributes
      \<and> new_channel_name (format_mini e) fmt sd attributes = Inr cur"
    using that by (simp add: update_entry_def apply_name_def)
  have two_passes:
    "(( \<forall>c n. Edit c n \<in> set tr1 \<longrightarrow> channel_edit e c n)
        \<longrightarrow> (\<exists>tr. update_entry e fmt (sid, sd) w1 = Inr (w1\<lparr>trace := trace w1 @ tr\<rparr>)
               \<and> (\<forall>c n. Edit c n \<notin> set tr)))
     \<and> (Edit c n \<in> set tr1 \<and> \<not> channel_edit e c n
        \<longrightarrow> update_entry e fmt (sid, sd) w1
              = Inr (w1\<lparr>trace := trace w1 @ [Fetch sid, Edit c n, Sleep 2]\<rparr>))"
    if first: "update_entry e fmt (sid, sd) w = Inr w1" and tr1: "trace w1 = trace w @ tr1"
  proof (cases "sd_channel_id sd = None \<or> sd_channel_id sd = Some 0
                 \<or> (\<exists>cid. sd_channel_id sd = Some cid \<and> channels w cid = None)")
    case True
    from update_entry_skipped [OF True, of e fmt sid] first have w1: "w1 = w" by simp
    with tr1 have "tr1 = []" by simp
    moreover have "update_entry e fmt (sid, sd) w1 = Inr (w1\<lparr>trace := trace w1 @ []\<rparr>)"
      using update_entry_skipped [OF True, of e fmt sid] w1 by simp
    ultimately show ?thesis by (intro conjI impI exI [of _ "[]"]) simp_all
  next
    case False
    then obtain cid cur where r: "sd_channel_id sd = Some cid" "cid \<noteq> 0" "channels w cid = Some cur"
      by (cases "sd_channel_id sd") auto
    show ?thesis
    proof (cases "fetch_server_info e sid = None \<or> fetch_server_info e sid = Some []")
      case True
      from update_entry_absent [OF r True, of fmt] first
      have w1: "w1 = w\<lparr>trace := trace w @ [Fetch sid]\<rparr>" by simp
      with tr1 have t: "tr1 = [Fetch sid]" by simp
      from r w1 have r1: "channels w1 cid = Some cur" by simp
      from update_entry_absent [OF r(1,2) r1 True, of fmt]
      have "update_entry e fmt (sid, sd) w1 = Inr (w1\<lparr>trace := trace w1 @ [Fetch sid]\<rparr>)" .
      with t show ?thesis by (intro conjI impI exI [of _ "[Fetch sid]"]) simp_all
    next
      case False
      then obtain i where i: "fetch_server_info e sid = Some i" "i \<noteq> []" by auto
      have "\<exists>attributes new_name. get_attributes i = Inr attributes
              \<and> new_channel_name (format_mini e) fmt sd attributes = Inr new_name"
      proof (rule ccontr)
        assume "\<not> ?thesis"
        then have "\<exists>x. get_attributes i = Inl x
          \<or> (\<exists>attributes. get_attributes i = Inr attributes
                \<and> new_channel_name (format_mini e) fmt sd attributes = Inl x)"
          by (cases "get_attributes i") (auto intro: sum.exhaust)
        then obtain x where "get_attributes i = Inl x
          \<or> (\<exists>attributes. get_attributes i = Inr attributes
                \<and> new_channel_name (format_mini e) fmt sd attributes = Inl x)" ..
        from update_entry_raises [OF r i this] first show False by simp
      qed
      then obtain attributes new_name where
        n: "get_attributes i = Inr attributes"
           "new_channel_name (format_mini e) fmt sd attributes = Inr new_name"
        by blast
      note named = update_entry_named [OF r(1,2) _ i n]
      show ?thesis
      proof (cases "cur = new_name")
        case True
        from named [OF r(3)] first True have w1: "w1 = w\<lparr>trace := trace w @ [Fetch sid, Sleep 2]\<rparr>"
          by simp
        with tr1 have t: "tr1 = [Fetch sid, Sleep 2]" by simp
        from r w1 True have r1: "channels w1 cid = Some new_name" by simp
        from named [OF r1]
        have "update_entry e fmt (sid, sd) w1 = Inr (w1\<lparr>trace := trace w1 @ [Fetch sid, Sleep 2]\<rparr>)"
          by simp
        with t show ?thesis by (intro conjI impI exI [of _ "[Fetch sid, Sleep 2]"]) simp_all
      next
        case differs: False
        show ?thesis
        proof (cases "channel_edit e cid new_name")
          case True
          from named [OF r(3)] first differs True
          have w1: "w1 = w\<lparr>channels := (channels w)(cid \<mapsto> new_name),
                            trace := trace w @ [Fetch sid, Edit cid new_name, Sleep 2]\<rparr>"
            by simp
          with tr1 have t: "tr1 = [Fetch sid, Edit cid new_name, Sleep 2]" by simp
          from w1 have r1: "channels w1 cid = Some new_name" by simp
          from named [OF r1]
          have "update_entry e fmt (sid, sd) w1 = Inr (w1\<lparr>trace := trace w1 @ [Fetch sid, Sleep 2]\<rparr>)"
            by simp
          with t True show ?thesis
            by (intro conjI impI exI [of _ "[Fetch sid, Sleep 2]"]) auto
        next
          case False
          from named [OF r(3)] first differs False
          have w1: "w1 = w\<lparr>trace := trace w @ [Fetch sid, Edit cid new_name, Sleep 2]\<rparr>"
            by simp
          with tr1 have t: "tr1 = [Fetch sid, Edit cid new_name, Sleep 2]" by simp
          from w1 r have r1: "channels w1 cid = Some cur" by simp
          from named [OF r1] differs False
          have "update_entry e fmt (sid, sd) w1
                = Inr (w1\<lparr>trace := trace w1 @ [Fetch sid, Edit cid new_name, Sleep 2]\<rparr>)"
            by simp
          with t False show ?thesis by (intro conjI impI) auto
        qed
      qed
    qed
  qed
  from first_half two_passes show ?thesis by blast
qed

lemma accepted_first_pass:
  "update_entry offline_env ''{name}'' (''2'', \<lparr>sd_channel_id = Some 5, sd_name = None\<rparr>)
      \<lparr>channels = two_guild_channels, trace = []\<rparr>
     = Inr \<lparr>channels = two_guild_channels(5 \<mapsto> ''[OFFLINE] A''),
            trace = [Fetch ''2'', Edit 5 ''[OFFLINE] A'', Sleep 2]\<rparr>"
  by (simp add: update_entry_def offline_fetch offline_env_fields get_attributes_def
                new_channel_name_def format_channel_name_def dict_get_def stored_name_def
                apply_name_def two_guild_channels_def)

lemma rejected_first_pass:
  "update_entry flaky_env ''{name}'' (''2'', \<lparr>sd_channel_id = Some 5, sd_name = None\<rparr>)
      \<lparr>channels = two_guild_channels, trace = []\<rparr>
     = Inr \<lparr>channels = two_guild_channels,
            trace = [Fetch ''2'', Edit 5 ''[OFFLINE] A'', Sleep 2]\<rparr>"
  by (simp add: update_entry_def flaky_fetch_2 flaky_env_fields get_attributes_def
                new_channel_name_def format_channel_name_def dict_get_def stored_name_def
                apply_name_def two_guild_channels_def)

theorem unchanged_name_is_not_renamed_witness:
  "update_entry offline_env ''{name}'' (''2'', \<lparr>sd_channel_id = Some 5, sd_name = None\<rparr>)
      \<lparr>channels = two_guild_channels, trace = []\<rparr>
     = Inr \<lparr>channels = two_guild_channels(5 \<mapsto> ''[OFFLINE] A''),
            trace = [Fetch ''2'', Edit 5 ''[OFFLINE] A'', Sleep 2]\<rparr>
   \<and> channel_edit offline_env 5 ''[OFFLINE] A''
   \<and> (\<exists>tr. update_entry offline_env ''{name}'' (''2'', \<lparr>sd_channel_id = Some 5, sd_name = None\<rparr>)
             \<lparr>channels = two_guild_channels(5 \<mapsto> ''[OFFLINE] A''),
               trace = [Fetch ''2'', Edit 5 ''[OFFLINE] A'', Sleep 2]\<rparr>
           = Inr \<lparr>channels = two_guild_channels(5 \<mapsto> ''[OFFLINE] A''),
                  trace = [Fetch ''2'', Edit 5 ''[OFFLINE] A'', Sleep 2] @ tr\<rparr>
         \<and> (\<forall>c n. Edit c n \<notin> set tr))
   \<and> update_entry offline_env ''{name}'' (''2'', \<lparr>sd_channel_id = Some 5, sd_name = None\<rparr>)
        \<lparr>channels = two_guild_channels(5 \<mapsto> ''[OFFLINE] A''), trace = []\<rparr>
     = Inr \<lparr>channels = two_guild_channels(5 \<mapsto> ''[OFFLINE] A''), trace = [Fetch ''2'', Sleep 2]\<rparr>
   \<and> update_entry flaky_env ''{name}'' (''2'', \<lparr>sd_channel_id = Some 5, sd_name = None\<rparr>)
        \<lparr>channels = two_guild_channels, trace = [Fetch ''2'', Edit 5 ''[OFFLINE] A'', Sleep 2]\<rparr>
     = Inr \<lparr>channels = two_guild_channels,
            trace = [Fetch ''2'', Edit 5 ''[OFFLINE] A'', Sleep 2, Fetch ''2'', Edit 5 ''[OFFLINE] A'', Sleep 2]\<rparr>"
proof -
  note acc = unchanged_name_is_not_renamed [where e = offline_env and fmt = "''{name}''"
      and sid = "''2''" and sd = "\<lparr>sd_channel_id = Some 5, sd_name = None\<rparr>"
      and w = "\<lparr>channels = two_guild_channels, trace = []\<rparr>"
      and ?w1.0 = "\<lparr>channels = two_guild_channels(5 \<mapsto> ''[OFFLINE] A''),
                       trace = [Fetch ''2'', Edit 5 ''[OFFLINE] A'', Sleep 2]\<rparr>"
      and ?tr1.0 = "[Fetch ''2'', Edit 5 ''[OFFLINE] A'', Sleep 2]"]
  note same = unchanged_name_is_not_renamed [where e = offline_env and fmt = "''{name}''"
      and sid = "''2''" and sd = "\<lparr>sd_channel_id = Some 5, sd_name = None\<rparr>"
      and cid = 5 and cur = "''[OFFLINE] A''"
      and i = "[(''attributes'', Object [(''name'', PStr ''A''), (''status'', PStr ''offline'')])]"
      and attributes = "[(''name'', PStr ''A''), (''status'', PStr ''offline'')]"
      and w = "\<lparr>channels = two_guild_channels(5 \<mapsto> ''[OFFLINE] A''), trace = []\<rparr>"]
  note rej = unchanged_name_is_not_renamed [where e = flaky_env and fmt = "''{name}''"
      and sid = "''2''" and sd = "\<lparr>sd_channel_id = Some 5, sd_name = None\<rparr>"
      and w = "\<lparr>channels = two_guild_channels, trace = []\<rparr>"
      and ?w1.0 = "\<lparr>channels = two_guild_channels,
                       trace = [Fetch ''2'', Edit 5 ''[OFFLINE] A'', Sleep 2]\<rparr>"
      and ?tr1.0 = "[Fetch ''2'', Edit 5 ''[OFFLINE] A'', Sleep 2]"
      and c = 5 and n = "''[OFFLINE] A''"]
  from acc [THEN conjunct2, THEN conjunct1] accepted_first_pass offline_env_fields(2)
  have second: "\<exists>tr. update_entry offline_env ''{name}'' (''2'', \<lparr>sd_channel_id = Some 5, sd_name = None\<rparr>)
             \<lparr>channels = two_guild_channels(5 \<mapsto> ''[OFFLINE] A''),
               trace = [Fetch ''2'', Edit 5 ''[OFFLINE] A'', Sleep 2]\<rparr>
           = Inr \<lparr>channels = two_guild_channels(5 \<mapsto> ''[OFFLINE] A''),
                  trace = [Fetch ''2'', Edit 5 ''[OFFLINE] A'', Sleep 2] @ tr\<rparr>
         \<and> (\<forall>c n. Edit c n \<notin> set tr)"
    by simp
  from same [THEN conjunct1]
  have unchanged: "update_entry offline_env ''{name}'' (''2'', \<lparr>sd_channel_id = Some 5, sd_name = None\<rparr>)
        \<lparr>channels = two_guild_channels(5 \<mapsto> ''[OFFLINE] A''), trace = []\<rparr>
     = Inr \<lparr>channels = two_guild_channels(5 \<mapsto> ''[OFFLINE] A''), trace = [Fetch ''2'', Sleep 2]\<rparr>"
    by (simp add: offline_fetch offline_env_fields get_attributes_def new_channel_name_def
                  format_channel_name_def dict_get_def stored_name_def)
  from rej [THEN conjunct2, THEN conjunct2] rejected_first_pass flaky_env_fields(2)
  have again: "update_entry flaky_env ''{name}'' (''2'', \<lparr>sd_channel_id = Some 5, sd_name = None\<rparr>)
        \<lparr>channels = two_guild_channels, trace = [Fetch ''2'', Edit 5 ''[OFFLINE] A'', Sleep 2]\<rparr>
     = Inr \<lparr>channels = two_guild_channels,
            trace = [Fetch ''2'', Edit 5 ''[OFFLINE] A'', Sleep 2, Fetch ''2'', Edit 5 ''[OFFLINE] A'', Sleep 2]\<rparr>"
    by simp
  from accepted_first_pass offline_env_fields(2) second unchanged again show ?thesis
    by (intro conjI)
qed

text \<open>
  The claim as stated fails: Discord rejects the rename of the first pass, the snapshot
  is the same in the second pass, and the second pass issues the same rename again.
\<close>

theorem rejected_rename_is_repeated_counterexample:
  "update_entry flaky_env ''{name}'' (''2'', \<lparr>sd_channel_id = Some 5, sd_name = None\<rparr>)
      \<lparr>channels = two_guild_channels, trace = []\<rparr>
     = Inr \<lparr>channels = two_guild_channels,
            trace = [Fetch ''2'', Edit 5 ''[OFFLINE] A'', Sleep 2]\<rparr>
   \<and> update_entry flaky_env ''{name}'' (''2'', \<lparr>sd_channel_id = Some 5, sd_name = None\<rparr>)
        \<lparr>channels = two_guild_channels, trace = [Fetch ''2'', Edit 5 ''[OFFLINE] A'', Sleep 2]\<rparr>
     = Inr \<lparr>channels = two_guild_channels,
            trace = [Fetch ''2'', Edit 5 ''[OFFLINE] A'', Sleep 2, Fetch ''2'', Edit 5 ''[OFFLINE] A'', Sleep 2]\<rparr>"
  by (simp add: update_entry_def flaky_fetch_2 flaky_env_fields get_attributes_def
                new_channel_name_def format_channel_name_def dict_get_def stored_name_def
                apply_name_def two_guild_channels_def)

section \<open>The manual refresh against the background pass\<close>

text \<open>
  Claim C9, as the code has it. For an entry with a stored name, \<open>refresh_servers\<close>
  computes the same name as the background pass when the snapshot is not offline
  (template and cut to 100 characters), and when it is offline and the label fits in 100
  characters. Unlike the background pass, it does not compare with the channel's
  current name: for every entry that is fetched and whose name is computed it issues
  the rename, and then sleeps 2 seconds.
\<close>

theorem refresh_same_name_but_always_renames:
  assumes "sd_name sd = Some v"
      and "dict_get attributes ''status'' (PStr ''offline'') \<noteq> PStr ''offline''
           \<or> length (''[OFFLINE] '' @ py_str v) \<le> 100"
  shows "refresh_new_name mini fmt sd attributes = new_channel_name mini fmt sd attributes
       \<and> (sd_channel_id sd = Some cid \<and> cid \<noteq> 0 \<and> channels (r_world st) cid = Some cur
            \<and> fetch_server_info e sid = Some i \<and> i \<noteq> [] \<and> get_attributes i = Inr attributes
            \<and> refresh_new_name (format_mini e) fmt sd attributes = Inr new_name
          \<longrightarrow> (\<exists>st'. refresh_entry e fmt (sid, sd) st = Inr st'
                  \<and> trace (r_world st') = trace (r_world st) @ [Fetch sid, Edit cid new_name, Sleep 2]))"
proof
  show "refresh_new_name mini fmt sd attributes = new_channel_name mini fmt sd attributes"
    using assms
    by (auto simp: refresh_new_name_def new_channel_name_def format_channel_name_def
                   stored_name_def Let_def)
next
  show "sd_channel_id sd = Some cid \<and> cid \<noteq> 0 \<and> channels (r_world st) cid = Some cur
            \<and> fetch_server_info e sid = Some i \<and> i \<noteq> [] \<and> get_attributes i = Inr attributes
            \<and> refresh_new_name (format_mini e) fmt sd attributes = Inr new_name
          \<longrightarrow> (\<exists>st'. refresh_entry e fmt (sid, sd) st = Inr st'
                  \<and> trace (r_world st') = trace (r_world st) @ [Fetch sid, Edit cid new_name, Sleep 2])"
    by (auto simp: refresh_entry_def Let_def)
qed

theorem refresh_same_name_but_always_renames_witness:
  "sd_name \<lparr>sd_channel_id = Some 5, sd_name = Some (PStr ''A'')\<rparr> = Some (PStr ''A'')
   \<and> length (''[OFFLINE] '' @ py_str (PStr ''A'')) \<le> 100
   \<and> refresh_new_name no_mini ''{name}'' \<lparr>sd_channel_id = Some 5, sd_name = Some (PStr ''A'')\<rparr>
        [(''name'', PStr ''A''), (''status'', PStr ''offline'')]
     = new_channel_name no_mini ''{name}'' \<lparr>sd_channel_id = Some 5, sd_name = Some (PStr ''A'')\<rparr>
        [(''name'', PStr ''A''), (''status'', PStr ''offline'')]
   \<and> (\<exists>st'. refresh_entry offline_env ''{name}''
               (''2'', \<lparr>sd_channel_id = Some 5, sd_name = Some (PStr ''A'')\<rparr>)
               \<lparr>r_world = \<lparr>channels = [5 \<mapsto> ''[OFFLINE] A''], trace = []\<rparr>, updated = 0, failed = 0\<rparr>
             = Inr st'
           \<and> trace (r_world st') = [Fetch ''2'', Edit 5 ''[OFFLINE] A'', Sleep 2])"
  using refresh_same_name_but_always_renames [of "\<lparr>sd_channel_id = Some 5, sd_name = Some (PStr ''A'')\<rparr>"
          "PStr ''A''" "[(''name'', PStr ''A''), (''status'', PStr ''offline'')]" no_mini "''{name}''"
          5 "\<lparr>r_world = \<lparr>channels = [5 \<mapsto> ''[OFFLINE] A''], trace = []\<rparr>, updated = 0, failed = 0\<rparr>"
          "''[OFFLINE] A''" offline_env "''2''"
          "[(''attributes'', Object [(''name'', PStr ''A''), (''status'', PStr ''offline'')])]"
          "''[OFFLINE] A''"]
  by (simp add: offline_fetch offline_env_fields get_attributes_def refresh_new_name_def
                dict_get_def stored_name_def)

text \<open>
  The claim as stated fails: for a channel that already has the computed name the
  background pass issues no rename and the refresh command issues one.
\<close>

theorem refresh_renames_unchanged_name_counterexample:
  "update_entry offline_env ''{name}'' (''2'', \<lparr>sd_channel_id = Some 5, sd_name = Some (PStr ''A'')\<rparr>)
      \<lparr>channels = [5 \<mapsto> ''[OFFLINE] A''], trace = []\<rparr>
     = Inr \<lparr>channels = [5 \<mapsto> ''[OFFLINE] A''], trace = [Fetch ''2'', Sleep 2]\<rparr>
   \<and> refresh_entry offline_env ''{name}'' (''2'', \<lparr>sd_channel_id = Some 5, sd_name = Some (PStr ''A'')\<rparr>)
      \<lparr>r_world = \<lparr>channels = [5 \<mapsto> ''[OFFLINE] A''], trace = []\<rparr>, updated = 0, failed = 0\<rparr>
     = Inr \<lparr>r_world = \<lparr>channels = [5 \<mapsto> ''[OFFLINE] A''],
                         trace = [Fetch ''2'', Edit 5 ''[OFFLINE] A'', Sleep 2]\<rparr>,
            updated = 1, failed = 0\<rparr>"
  by (simp add: update_entry_def refresh_entry_def offline_fetch offline_env_fields get_attributes_def
                new_channel_name_def refresh_new_name_def format_channel_name_def dict_get_def
                stored_name_def apply_name_def)

text \<open>
  Without a stored name the two paths differ as well: the background pass falls back to
  the snapshot's name, the refresh command to \<open>"Unknown"\<close>.
\<close>

theorem refresh_fallback_name_differs:
  "refresh_new_name no_mini ''{name}'' \<lparr>sd_channel_id = Some 5, sd_name = None\<rparr>
        [(''name'', PStr ''Alpha''), (''status'', PStr ''offline'')] = Inr ''[OFFLINE] Unknown''
   \<and> new_channel_name no_mini ''{name}'' \<lparr>sd_channel_id = Some 5, sd_name = None\<rparr>
        [(''name'', PStr ''Alpha''), (''status'', PStr ''offline'')] = Inr ''[OFFLINE] Alpha''"
  by (simp add: new_channel_name_def refresh_new_name_def format_channel_name_def dict_get_def
                stored_name_def)

end
